theory Spec2Isabelle
  imports Main
begin

section \<open>Python values and the session state\<close>

text \<open>
  The session state of \<^verbatim>\<open>agent.py\<close> is a Python dict from string keys to values.
  The values are the JSON-serialisable Python values, so that \<^verbatim>\<open>json.dumps\<close> of a
  response dict always returns. A Python \<^verbatim>\<open>str\<close> is a \<open>string\<close>: one \<open>char\<close> per code
  point below 256.
\<close>

datatype pyval =
    PNone
  | PBool bool
  | PInt int
  | PStr string
  | PList "pyval list"
  | PDict "(string \<times> pyval) list"

type_synonym state = "string \<Rightarrow> pyval option"

text \<open>Python truthiness, as \<^verbatim>\<open>not x\<close> and \<^verbatim>\<open>if x\<close> use it.\<close>

fun truthy :: "pyval \<Rightarrow> bool" where
  "truthy PNone = False"
| "truthy (PBool b) = b"
| "truthy (PInt i) = (i \<noteq> 0)"
| "truthy (PStr s) = (s \<noteq> [])"
| "truthy (PList xs) = (xs \<noteq> [])"
| "truthy (PDict kvs) = (kvs \<noteq> [])"

text \<open>\<^verbatim>\<open>state.get(k)\<close> and \<^verbatim>\<open>state.get(k, d)\<close>.\<close>

definition state_get :: "state \<Rightarrow> string \<Rightarrow> pyval" where
  "state_get st k = (case st k of None \<Rightarrow> PNone | Some v \<Rightarrow> v)"

definition state_get_default :: "state \<Rightarrow> string \<Rightarrow> pyval \<Rightarrow> pyval" where
  "state_get_default st k d = (case st k of None \<Rightarrow> d | Some v \<Rightarrow> v)"

section \<open>String operations\<close>

text \<open>\<^verbatim>\<open>s.startswith(p)\<close> and \<^verbatim>\<open>p in s\<close> on strings.\<close>

fun startswith :: "string \<Rightarrow> string \<Rightarrow> bool" where
  "startswith s [] = True"
| "startswith [] (p # ps) = False"
| "startswith (c # cs) (p # ps) = (c = p \<and> startswith cs ps)"

fun str_contains :: "string \<Rightarrow> string \<Rightarrow> bool" where
  "str_contains [] p = (p = [])"
| "str_contains (c # cs) p = (startswith (c # cs) p \<or> str_contains cs p)"

text \<open>The name of a value's type, as Python prints it in an \<^verbatim>\<open>AttributeError\<close>.\<close>

fun type_name :: "pyval \<Rightarrow> string" where
  "type_name PNone = ''NoneType''"
| "type_name (PBool b) = ''bool''"
| "type_name (PInt i) = ''int''"
| "type_name (PStr s) = ''str''"
| "type_name (PList xs) = ''list''"
| "type_name (PDict kvs) = ''dict''"

definition quoted :: "string \<Rightarrow> string" where
  "quoted s = [CHR 0x27] @ s @ [CHR 0x27]"

text \<open>
  The message of the \<^verbatim>\<open>AttributeError\<close> that \<^verbatim>\<open>v.name\<close> raises when the type of
  \<open>v\<close> has no attribute \<open>name\<close>.
\<close>

definition attribute_error :: "pyval \<Rightarrow> string \<Rightarrow> string" where
  "attribute_error v name =
     quoted (type_name v) @ '' object has no attribute '' @ quoted name"

section \<open>Stages, events and the result envelope\<close>

text \<open>
  The four \<^verbatim>\<open>LlmAgent\<close> stages are external. Running one on the session streams events,
  changes the session state, and either completes or raises an \<^verbatim>\<open>Exception\<close> \<open>e\<close>, of
  which \<open>raised\<close> holds \<^verbatim>\<open>str(e)\<close>. The events streamed and the state reached before a
  raise are kept. What \<^verbatim>\<open>except Exception\<close> does not catch (an interrupt, a
  cancellation) is not modelled.
\<close>

record 'e stage_run =
  yielded :: "'e list"
  state_after :: state
  raised :: "string option"

datatype stage_name = Fetch_issue | Analyze_issue | Implement_fix | Create_pr

text \<open>The \<^verbatim>\<open>output_key\<close> each \<^verbatim>\<open>LlmAgent\<close> is constructed with; \<open>implement_fix\<close> has none.\<close>

fun output_key :: "stage_name \<Rightarrow> string option" where
  "output_key Fetch_issue = Some ''issue_details''"
| "output_key Analyze_issue = Some ''analysis''"
| "output_key Implement_fix = None"
| "output_key Create_pr = Some ''pr_output''"

text \<open>The stage of \<open>fetch_agent\<close> is built from the issue URL (its instruction names it).\<close>

record 'e stages =
  fetch_agent :: "string \<Rightarrow> state \<Rightarrow> 'e stage_run"
  analyze_agent :: "state \<Rightarrow> 'e stage_run"
  implement_agent :: "state \<Rightarrow> 'e stage_run"
  pr_agent :: "state \<Rightarrow> 'e stage_run"

text \<open>
  The response dict that is serialised into the driver's own event. Building the
  \<^verbatim>\<open>Event\<close> and \<^verbatim>\<open>json.dumps\<close> of the dict are taken to return.
\<close>

record envelope =
  success :: bool
  error :: pyval
  issue_details :: pyval
  analysis :: pyval
  implementation_summary :: pyval
  pull_request :: pyval

datatype 'e event = StageEvent 'e | Response envelope

text \<open>
  What the generator \<^verbatim>\<open>_run_async_impl\<close> has done so far: the events it yielded, in
  order, the stages it invoked, in order, and the session state.
\<close>

record 'e gen =
  out :: "'e event list"
  calls :: "stage_name list"
  sess :: state

definition yield_response :: "'e gen \<Rightarrow> envelope \<Rightarrow> 'e gen" where
  "yield_response g env = g\<lparr>out := out g @ [Response env]\<rparr>"

text \<open>\<^verbatim>\<open>async for event in agent.run_async(ctx): yield event\<close>.\<close>

definition run_stage :: "stage_name \<Rightarrow> 'e stage_run \<Rightarrow> 'e gen \<Rightarrow> 'e gen" where
  "run_stage n r g =
     \<lparr>out = out g @ map StageEvent (yielded r), calls = calls g @ [n], sess = state_after r\<rparr>"

section \<open>The driver\<close>

text \<open>The \<^verbatim>\<open>except Exception as e\<close> handler, lines 203 to 212.\<close>

definition except_handler :: "string \<Rightarrow> 'e gen \<Rightarrow> 'e gen" where
  "except_handler msg g =
     yield_response g
       \<lparr>success = False,
        error = PStr (''Unexpected error: '' @ msg),
        issue_details = state_get (sess g) ''issue_details'',
        analysis = state_get (sess g) ''analysis'',
        implementation_summary = state_get (sess g) ''implementation_summary'',
        pull_request = state_get (sess g) ''pr_output''\<rparr>"

text \<open>Lines 155 to 201: stage 4, its check, and the success response.\<close>

definition from_create_pr :: "'e stages \<Rightarrow> 'e gen \<Rightarrow> 'e gen" where
  "from_create_pr ags g =
     (let r = pr_agent ags (sess g); g' = run_stage Create_pr r g in
      case raised r of
        Some msg \<Rightarrow> except_handler msg g'
      | None \<Rightarrow>
          if \<not> truthy (state_get (sess g') ''pr_output'') then
            yield_response g'
              \<lparr>success = False,
               error = PStr ''PR creation failed'',
               issue_details = state_get (sess g') ''issue_details'',
               analysis = state_get (sess g') ''analysis'',
               implementation_summary = PStr ''Changes were implemented but PR creation failed'',
               pull_request = PNone\<rparr>
          else
            yield_response g'
              \<lparr>success = True,
               error = PNone,
               issue_details = state_get (sess g') ''issue_details'',
               analysis = state_get (sess g') ''analysis'',
               implementation_summary =
                 PStr ''Successfully implemented code changes based on issue analysis'',
               pull_request = state_get (sess g') ''pr_output''\<rparr>)"

text \<open>Lines 132 to 153: stage 3, which has no check after it.\<close>

definition from_implement :: "'e stages \<Rightarrow> 'e gen \<Rightarrow> 'e gen" where
  "from_implement ags g =
     (let r = implement_agent ags (sess g); g' = run_stage Implement_fix r g in
      case raised r of
        Some msg \<Rightarrow> except_handler msg g'
      | None \<Rightarrow> from_create_pr ags g')"

text \<open>Lines 92 to 130: stage 2 and its check.\<close>

definition from_analyze :: "'e stages \<Rightarrow> 'e gen \<Rightarrow> 'e gen" where
  "from_analyze ags g =
     (let r = analyze_agent ags (sess g); g' = run_stage Analyze_issue r g in
      case raised r of
        Some msg \<Rightarrow> except_handler msg g'
      | None \<Rightarrow>
          if \<not> truthy (state_get (sess g') ''analysis'') then
            yield_response g'
              \<lparr>success = False,
               error = PStr ''No analysis found'',
               issue_details = state_get (sess g') ''issue_details'',
               analysis = PNone,
               implementation_summary = PNone,
               pull_request = PNone\<rparr>
          else from_implement ags g')"

text \<open>Lines 62 to 90: stage 1 and its check.\<close>

definition from_fetch :: "'e stages \<Rightarrow> string \<Rightarrow> 'e gen \<Rightarrow> 'e gen" where
  "from_fetch ags issue_url g =
     (let r = fetch_agent ags issue_url (sess g); g' = run_stage Fetch_issue r g in
      case raised r of
        Some msg \<Rightarrow> except_handler msg g'
      | None \<Rightarrow>
          if \<not> truthy (state_get (sess g') ''issue_details'') then
            yield_response g'
              \<lparr>success = False,
               error = PStr ''No issue_details found'',
               issue_details = PNone,
               analysis = PNone,
               implementation_summary = PNone,
               pull_request = PNone\<rparr>
          else from_analyze ags g')"

text \<open>
  \<^verbatim>\<open>ResolveIssueAgent._run_async_impl\<close>, from the session state the run starts with.
  (\<^verbatim>\<open>user_input\<close> is read at line 33 and never used.) The format test of line 50 calls
  \<^verbatim>\<open>issue_url.startswith\<close>: only a \<^verbatim>\<open>str\<close> has that method, on any other truthy value
  the attribute lookup raises inside the \<^verbatim>\<open>try\<close>.
\<close>

definition run_async_impl :: "'e stages \<Rightarrow> state \<Rightarrow> 'e gen" where
  "run_async_impl ags st =
     (let g = \<lparr>out = [], calls = [], sess = st\<rparr>;
          issue_url = state_get_default st ''issue_url'' (PStr '''') in
      if \<not> truthy issue_url then
        yield_response g
          \<lparr>success = False,
           error = PStr ''No issue_url provided'',
           issue_details = PNone,
           analysis = PNone,
           implementation_summary = PNone,
           pull_request = PNone\<rparr>
      else
        case issue_url of
          PStr u \<Rightarrow>
            if \<not> (startswith u ''https://github.com/'' \<and> str_contains u ''/issues/'') then
              yield_response g
                \<lparr>success = False,
                 error = PStr ''Invalid issue_url format'',
                 issue_details = PNone,
                 analysis = PNone,
                 implementation_summary = PNone,
                 pull_request = PNone\<rparr>
            else from_fetch ags u g
        | _ \<Rightarrow> except_handler (attribute_error issue_url ''startswith'') g)"

section \<open>The \<^verbatim>\<open>.env\<close> loader of \<^verbatim>\<open>main.py\<close>\<close>

text \<open>
  \<^verbatim>\<open>str.isspace\<close> on the code points below 256: tab to carriage return, the four
  separators 28 to 31, space, NEL and the no-break space.
\<close>

definition isspace :: "char \<Rightarrow> bool" where
  "isspace c =
     (let n = (of_char c :: nat) in
      (9 \<le> n \<and> n \<le> 13) \<or> (28 \<le> n \<and> n \<le> 32) \<or> n = 133 \<or> n = 160)"

text \<open>\<^verbatim>\<open>line.strip()\<close>: leading and trailing whitespace removed.\<close>

definition strip :: "string \<Rightarrow> string" where
  "strip s = rev (dropWhile isspace (rev (dropWhile isspace s)))"

text \<open>\<^verbatim>\<open>line.split("=", 1)\<close>: at most one split, at the leftmost separator.\<close>

definition split_eq1 :: "string \<Rightarrow> string list" where
  "split_eq1 s =
     (case dropWhile (\<lambda>c. c \<noteq> CHR ''='') s of
        [] \<Rightarrow> [s]
      | _ # rest \<Rightarrow> [takeWhile (\<lambda>c. c \<noteq> CHR ''='') s, rest])"

text \<open>
  The exceptions the loader can raise, each with its message: \<^verbatim>\<open>ValueError\<close> and
  \<^verbatim>\<open>OSError\<close>.
\<close>

datatype py_exception = ValueError string | OSError string

text \<open>
  \<^verbatim>\<open>os.environ[key] = value\<close> on a POSIX system. \<^verbatim>\<open>os.environ\<close> is a mapping from names
  to values, and the assignment calls \<^verbatim>\<open>os.putenv\<close> first: a NUL character in the name
  or in the value is refused with \<^verbatim>\<open>ValueError\<close> when the arguments are converted, a
  name with \<open>=\<close> in it is refused with \<^verbatim>\<open>ValueError\<close>, and the empty name makes
  \<^verbatim>\<open>setenv\<close> fail with \<^verbatim>\<open>EINVAL\<close>, which is an \<^verbatim>\<open>OSError\<close>. Otherwise the name is bound to
  the value, whatever it was bound to before.
\<close>

type_synonym environ = "string \<Rightarrow> string option"

definition environ_setitem :: "environ \<Rightarrow> string \<Rightarrow> string \<Rightarrow> py_exception + environ" where
  "environ_setitem env key value =
     (if CHR 0x00 \<in> set key \<or> CHR 0x00 \<in> set value then
        Inl (ValueError ''embedded null byte'')
      else if CHR ''='' \<in> set key then
        Inl (ValueError ''illegal environment variable name'')
      else if key = [] then
        Inl (OSError ''[Errno 22] Invalid argument'')
      else Inr (env(key \<mapsto> value)))"

text \<open>
  The body of the loop of lines 24 to 27 on one line of the file; the unpacking
  \<^verbatim>\<open>key, value = ...\<close> raises \<^verbatim>\<open>ValueError\<close> on a list that has not two elements.
\<close>

definition load_line :: "environ \<Rightarrow> string \<Rightarrow> py_exception + environ" where
  "load_line env raw =
     (let line = strip raw in
      if line \<noteq> [] \<and> \<not> startswith line ''#'' \<and> str_contains line ''='' then
        (case split_eq1 line of
           [key, value] \<Rightarrow> environ_setitem env key value
         | _ \<Rightarrow> Inl (ValueError ''not enough values to unpack (expected 2, got 1)''))
      else Inr env)"

text \<open>
  \<^verbatim>\<open>for line in f\<close>. Nothing in \<^verbatim>\<open>main\<close> catches an exception of the loop body: the
  loop, and with it the program, stops at the first line that raises.
\<close>

fun load_lines :: "environ \<Rightarrow> string list \<Rightarrow> py_exception + environ" where
  "load_lines env [] = Inr env"
| "load_lines env (raw # rest) =
     (case load_line env raw of
        Inl e \<Rightarrow> Inl e
      | Inr env' \<Rightarrow> load_lines env' rest)"

text \<open>
  Lines 20 to 27 of \<^verbatim>\<open>main\<close>: the file is read only if it exists (\<open>None\<close> when it
  does not, else its lines).
\<close>

definition load_env_file :: "string list option \<Rightarrow> environ \<Rightarrow> py_exception + environ" where
  "load_env_file env_file env =
     (case env_file of
        None \<Rightarrow> Inr env
      | Some lines \<Rightarrow> load_lines env lines)"

section \<open>Example stages for concrete runs\<close>

text \<open>
  Stand-ins for the external stages: one that streams its events and stores a value
  under a key, one that streams its events and leaves the state alone, and one that
  raises after streaming its events.
\<close>

definition writes :: "string \<Rightarrow> pyval \<Rightarrow> 'e list \<Rightarrow> state \<Rightarrow> 'e stage_run" where
  "writes k v evs st = \<lparr>yielded = evs, state_after = st(k \<mapsto> v), raised = None\<rparr>"

definition silent :: "'e list \<Rightarrow> state \<Rightarrow> 'e stage_run" where
  "silent evs st = \<lparr>yielded = evs, state_after = st, raised = None\<rparr>"

definition failing :: "string \<Rightarrow> 'e list \<Rightarrow> state \<Rightarrow> 'e stage_run" where
  "failing msg evs st = \<lparr>yielded = evs, state_after = st, raised = Some msg\<rparr>"

definition example_stages :: "string stages" where
  "example_stages =
     \<lparr>fetch_agent = (\<lambda>u. writes ''issue_details'' (PStr (''issue at '' @ u)) [''fetched'']),
      analyze_agent = writes ''analysis'' (PStr ''<analysis/>'') [''analyzed''],
      implement_agent = silent [''implemented''],
      pr_agent = writes ''pr_output'' (PStr ''pull/2'') [''opened'']\<rparr>"

text \<open>The run of a stage that differs only in that key \<open>k\<close> is absent afterwards.\<close>

definition without_key :: "string \<Rightarrow> 'e stage_run \<Rightarrow> 'e stage_run" where
  "without_key k r = r\<lparr>state_after := (state_after r)(k := None)\<rparr>"

text \<open>The session state that \<^verbatim>\<open>main\<close> creates for an issue URL (lines 37 to 40).\<close>

definition initial_state :: "string \<Rightarrow> state" where
  "initial_state issue_url =
     [''issue_url'' \<mapsto> PStr issue_url,
      ''user_input'' \<mapsto> PStr (''Please resolve the GitHub issue: '' @ issue_url)]"

section \<open>Facts about the string operations\<close>

lemma startswith_iff: "startswith s p \<longleftrightarrow> (\<exists>r. s = p @ r)"
  by (induction s p rule: startswith.induct) auto

lemma str_contains_iff: "str_contains s p \<longleftrightarrow> (\<exists>a b. s = a @ p @ b)"
proof (induction s)
  case Nil
  then show ?case by auto
next
  case (Cons c cs)
  show ?case
  proof
    assume "str_contains (c # cs) p"
    then consider "startswith (c # cs) p" | "str_contains cs p" by auto
    then show "\<exists>a b. c # cs = a @ p @ b"
    proof cases
      case 1
      then obtain r where "c # cs = p @ r" by (auto simp: startswith_iff)
      then have "c # cs = [] @ p @ r" by simp
      then show ?thesis by blast
    next
      case 2
      then obtain a b where "cs = a @ p @ b" using Cons.IH by auto
      then have "c # cs = (c # a) @ p @ b" by simp
      then show ?thesis by blast
    qed
  next
    assume "\<exists>a b. c # cs = a @ p @ b"
    then obtain a b where ab: "c # cs = a @ p @ b" by auto
    show "str_contains (c # cs) p"
    proof (cases a)
      case Nil
      with ab have "startswith (c # cs) p" by (auto simp: startswith_iff)
      then show ?thesis by simp
    next
      case (Cons x a')
      with ab have "cs = a' @ p @ b" by simp
      then have "str_contains cs p" using Cons.IH by blast
      then show ?thesis by simp
    qed
  qed
qed

section \<open>The paths through the driver\<close>

lemma run_no_url:
  "\<not> truthy (state_get_default st ''issue_url'' (PStr '''')) \<Longrightarrow>
   run_async_impl ags st =
     \<lparr>out = [Response \<lparr>success = False, error = PStr ''No issue_url provided'',
              issue_details = PNone, analysis = PNone, implementation_summary = PNone,
              pull_request = PNone\<rparr>],
      calls = [], sess = st\<rparr>"
  by (simp add: run_async_impl_def yield_response_def)

lemma run_bad_format:
  "state_get_default st ''issue_url'' (PStr '''') = PStr u \<Longrightarrow> u \<noteq> [] \<Longrightarrow>
   \<not> (startswith u ''https://github.com/'' \<and> str_contains u ''/issues/'') \<Longrightarrow>
   run_async_impl ags st =
     \<lparr>out = [Response \<lparr>success = False, error = PStr ''Invalid issue_url format'',
              issue_details = PNone, analysis = PNone, implementation_summary = PNone,
              pull_request = PNone\<rparr>],
      calls = [], sess = st\<rparr>"
  by (simp add: run_async_impl_def yield_response_def)

lemma run_valid:
  "state_get_default st ''issue_url'' (PStr '''') = PStr u \<Longrightarrow>
   startswith u ''https://github.com/'' \<Longrightarrow> str_contains u ''/issues/'' \<Longrightarrow>
   run_async_impl ags st = from_fetch ags u \<lparr>out = [], calls = [], sess = st\<rparr>"
  by (cases u) (simp_all add: run_async_impl_def)

lemma from_fetch_raise:
  "raised (fetch_agent ags u (sess g)) = Some msg \<Longrightarrow>
   from_fetch ags u g = except_handler msg (run_stage Fetch_issue (fetch_agent ags u (sess g)) g)"
  by (simp add: from_fetch_def Let_def)

lemma from_fetch_missing:
  "raised (fetch_agent ags u (sess g)) = None \<Longrightarrow>
   \<not> truthy (state_get (state_after (fetch_agent ags u (sess g))) ''issue_details'') \<Longrightarrow>
   from_fetch ags u g =
     yield_response (run_stage Fetch_issue (fetch_agent ags u (sess g)) g)
       \<lparr>success = False, error = PStr ''No issue_details found'',
        issue_details = PNone, analysis = PNone, implementation_summary = PNone,
        pull_request = PNone\<rparr>"
  by (simp add: from_fetch_def run_stage_def Let_def)

lemma from_fetch_ok:
  "raised (fetch_agent ags u (sess g)) = None \<Longrightarrow>
   truthy (state_get (state_after (fetch_agent ags u (sess g))) ''issue_details'') \<Longrightarrow>
   from_fetch ags u g = from_analyze ags (run_stage Fetch_issue (fetch_agent ags u (sess g)) g)"
  by (simp add: from_fetch_def run_stage_def Let_def)

lemma from_analyze_raise:
  "raised (analyze_agent ags (sess g)) = Some msg \<Longrightarrow>
   from_analyze ags g = except_handler msg (run_stage Analyze_issue (analyze_agent ags (sess g)) g)"
  by (simp add: from_analyze_def Let_def)

lemma from_analyze_missing:
  "raised (analyze_agent ags (sess g)) = None \<Longrightarrow>
   \<not> truthy (state_get (state_after (analyze_agent ags (sess g))) ''analysis'') \<Longrightarrow>
   from_analyze ags g =
     yield_response (run_stage Analyze_issue (analyze_agent ags (sess g)) g)
       \<lparr>success = False, error = PStr ''No analysis found'',
        issue_details = state_get (state_after (analyze_agent ags (sess g))) ''issue_details'',
        analysis = PNone, implementation_summary = PNone, pull_request = PNone\<rparr>"
  by (simp add: from_analyze_def run_stage_def Let_def)

lemma from_analyze_ok:
  "raised (analyze_agent ags (sess g)) = None \<Longrightarrow>
   truthy (state_get (state_after (analyze_agent ags (sess g))) ''analysis'') \<Longrightarrow>
   from_analyze ags g = from_implement ags (run_stage Analyze_issue (analyze_agent ags (sess g)) g)"
  by (simp add: from_analyze_def run_stage_def Let_def)

lemma from_implement_raise:
  "raised (implement_agent ags (sess g)) = Some msg \<Longrightarrow>
   from_implement ags g =
     except_handler msg (run_stage Implement_fix (implement_agent ags (sess g)) g)"
  by (simp add: from_implement_def Let_def)

lemma from_implement_ok:
  "raised (implement_agent ags (sess g)) = None \<Longrightarrow>
   from_implement ags g =
     from_create_pr ags (run_stage Implement_fix (implement_agent ags (sess g)) g)"
  by (simp add: from_implement_def Let_def)

lemma from_create_pr_raise:
  "raised (pr_agent ags (sess g)) = Some msg \<Longrightarrow>
   from_create_pr ags g = except_handler msg (run_stage Create_pr (pr_agent ags (sess g)) g)"
  by (simp add: from_create_pr_def Let_def)

lemma from_create_pr_missing:
  "raised (pr_agent ags (sess g)) = None \<Longrightarrow>
   \<not> truthy (state_get (state_after (pr_agent ags (sess g))) ''pr_output'') \<Longrightarrow>
   from_create_pr ags g =
     yield_response (run_stage Create_pr (pr_agent ags (sess g)) g)
       \<lparr>success = False, error = PStr ''PR creation failed'',
        issue_details = state_get (state_after (pr_agent ags (sess g))) ''issue_details'',
        analysis = state_get (state_after (pr_agent ags (sess g))) ''analysis'',
        implementation_summary = PStr ''Changes were implemented but PR creation failed'',
        pull_request = PNone\<rparr>"
  by (simp add: from_create_pr_def run_stage_def Let_def)

lemma from_create_pr_ok:
  "raised (pr_agent ags (sess g)) = None \<Longrightarrow>
   truthy (state_get (state_after (pr_agent ags (sess g))) ''pr_output'') \<Longrightarrow>
   from_create_pr ags g =
     yield_response (run_stage Create_pr (pr_agent ags (sess g)) g)
       \<lparr>success = True, error = PNone,
        issue_details = state_get (state_after (pr_agent ags (sess g))) ''issue_details'',
        analysis = state_get (state_after (pr_agent ags (sess g))) ''analysis'',
        implementation_summary =
          PStr ''Successfully implemented code changes based on issue analysis'',
        pull_request = state_get (state_after (pr_agent ags (sess g))) ''pr_output''\<rparr>"
  by (simp add: from_create_pr_def run_stage_def Let_def)

section \<open>Input validation\<close>

text \<open>
  C4. For every issue URL (a string, or the default \<open>''''\<close> of an absent key) that is empty,
  or does not start with \<open>https://github.com/\<close>, or does not contain \<open>/issues/\<close>, the run
  invokes no stage and yields exactly one event, the envelope with \<open>success\<close> false and the
  four result fields null. Its error is \<open>No issue_url provided\<close> exactly when the URL is
  empty, and \<open>Invalid issue_url format\<close> otherwise.
\<close>

theorem C4_invalid_url_rejected:
  assumes "state_get_default st ''issue_url'' (PStr '''') = PStr u"
    and "u = [] \<or> \<not> startswith u ''https://github.com/'' \<or> \<not> str_contains u ''/issues/''"
  shows "run_async_impl ags st =
           \<lparr>out = [Response \<lparr>success = False,
                    error = PStr (if u = [] then ''No issue_url provided''
                                  else ''Invalid issue_url format''),
                    issue_details = PNone, analysis = PNone, implementation_summary = PNone,
                    pull_request = PNone\<rparr>],
            calls = [], sess = st\<rparr>
         \<and> ((if u = [] then ''No issue_url provided'' else ''Invalid issue_url format'')
              = ''No issue_url provided'' \<longleftrightarrow> u = [])"
proof (cases "u = []")
  case True
  with assms(1) show ?thesis by (simp add: run_no_url)
next
  case False
  with assms show ?thesis by (simp add: run_bad_format)
qed

theorem C4_invalid_url_rejected_witness:
  "state_get_default (initial_state ''https://gitlab.com/o/r/issues/1'') ''issue_url'' (PStr '''')
     = PStr ''https://gitlab.com/o/r/issues/1''
   \<and> \<not> startswith ''https://gitlab.com/o/r/issues/1'' ''https://github.com/''
   \<and> run_async_impl example_stages (initial_state ''https://gitlab.com/o/r/issues/1'') =
           \<lparr>out = [Response \<lparr>success = False, error = PStr ''Invalid issue_url format'',
                    issue_details = PNone, analysis = PNone, implementation_summary = PNone,
                    pull_request = PNone\<rparr>],
            calls = [], sess = initial_state ''https://gitlab.com/o/r/issues/1''\<rparr>"
proof -
  have h1: "state_get_default (initial_state ''https://gitlab.com/o/r/issues/1'') ''issue_url''
              (PStr '''') = PStr ''https://gitlab.com/o/r/issues/1''"
    by (simp add: state_get_default_def initial_state_def)
  have h2: "\<not> startswith ''https://gitlab.com/o/r/issues/1'' ''https://github.com/''"
    by simp
  from h2 have h3: "''https://gitlab.com/o/r/issues/1'' = []
      \<or> \<not> startswith ''https://gitlab.com/o/r/issues/1'' ''https://github.com/''
      \<or> \<not> str_contains ''https://gitlab.com/o/r/issues/1'' ''/issues/''"
    by blast
  show ?thesis
    using h1 h2 C4_invalid_url_rejected [OF h1 h3, of example_stages] by simp
qed

section \<open>Missing stage output\<close>

text \<open>
  C5. If the URL is valid, stage 1 completes without raising, and the session state then
  holds no \<open>issue_details\<close> key, the run yields the events of stage 1 followed by one
  envelope with \<open>success\<close> false, error \<open>No issue_details found\<close> and the four result
  fields null; stage 1 is the only stage invoked.
\<close>

theorem C5_no_issue_details:
  assumes "state_get_default st ''issue_url'' (PStr '''') = PStr u"
    and "startswith u ''https://github.com/''" and "str_contains u ''/issues/''"
    and "raised (fetch_agent ags u st) = None"
    and "state_after (fetch_agent ags u st) ''issue_details'' = None"
  shows "run_async_impl ags st =
           \<lparr>out = map StageEvent (yielded (fetch_agent ags u st)) @
                  [Response \<lparr>success = False, error = PStr ''No issue_details found'',
                     issue_details = PNone, analysis = PNone, implementation_summary = PNone,
                     pull_request = PNone\<rparr>],
            calls = [Fetch_issue],
            sess = state_after (fetch_agent ags u st)\<rparr>"
  using assms
  by (simp add: run_valid from_fetch_missing state_get_def yield_response_def run_stage_def)

theorem C5_no_issue_details_witness:
  "run_async_impl (example_stages\<lparr>fetch_agent := \<lambda>u. silent [''gh: not found'']\<rparr>)
     (initial_state ''https://github.com/o/r/issues/7'') =
     \<lparr>out = [StageEvent ''gh: not found'',
             Response \<lparr>success = False, error = PStr ''No issue_details found'',
               issue_details = PNone, analysis = PNone, implementation_summary = PNone,
               pull_request = PNone\<rparr>],
      calls = [Fetch_issue],
      sess = initial_state ''https://github.com/o/r/issues/7''\<rparr>"
  using C5_no_issue_details [of "initial_state ''https://github.com/o/r/issues/7''"
      "''https://github.com/o/r/issues/7''"
      "example_stages\<lparr>fetch_agent := \<lambda>u. silent [''gh: not found'']\<rparr>"]
  by (simp add: state_get_default_def initial_state_def silent_def)

text \<open>
  C6. If the URL is valid, stages 1 to 4 complete without raising, \<open>issue_details\<close> is
  truthy after stage 1 and \<open>analysis\<close> after stage 2, and the state after stage 4 holds
  no \<open>pr_output\<close> key, the run yields the stages' events followed by one envelope with
  \<open>success\<close> false, \<open>issue_details\<close> and \<open>analysis\<close> read from the session state, the fixed
  summary \<open>Changes were implemented but PR creation failed\<close>, and \<open>pull_request\<close> null.
\<close>

theorem C6_no_pr_output:
  assumes "state_get_default st ''issue_url'' (PStr '''') = PStr u"
    and "startswith u ''https://github.com/''" and "str_contains u ''/issues/''"
    and "r1 = fetch_agent ags u st" and "raised r1 = None"
    and "truthy (state_get (state_after r1) ''issue_details'')"
    and "r2 = analyze_agent ags (state_after r1)" and "raised r2 = None"
    and "truthy (state_get (state_after r2) ''analysis'')"
    and "r3 = implement_agent ags (state_after r2)" and "raised r3 = None"
    and "r4 = pr_agent ags (state_after r3)" and "raised r4 = None"
    and "state_after r4 ''pr_output'' = None"
  shows "run_async_impl ags st =
           \<lparr>out = map StageEvent (yielded r1 @ yielded r2 @ yielded r3 @ yielded r4) @
                  [Response \<lparr>success = False, error = PStr ''PR creation failed'',
                     issue_details = state_get (state_after r4) ''issue_details'',
                     analysis = state_get (state_after r4) ''analysis'',
                     implementation_summary =
                       PStr ''Changes were implemented but PR creation failed'',
                     pull_request = PNone\<rparr>],
            calls = [Fetch_issue, Analyze_issue, Implement_fix, Create_pr],
            sess = state_after r4\<rparr>"
proof -
  let ?g1 = "run_stage Fetch_issue r1 \<lparr>out = [], calls = [], sess = st\<rparr>"
  let ?g2 = "run_stage Analyze_issue r2 ?g1"
  let ?g3 = "run_stage Implement_fix r3 ?g2"
  have "run_async_impl ags st = from_fetch ags u \<lparr>out = [], calls = [], sess = st\<rparr>"
    using assms(1-3) by (rule run_valid)
  also have "\<dots> = from_analyze ags ?g1"
    using assms(4-6) by (simp add: from_fetch_ok)
  also have "\<dots> = from_implement ags ?g2"
    using assms(7-9) by (simp add: from_analyze_ok run_stage_def)
  also have "\<dots> = from_create_pr ags ?g3"
    using assms(10,11) by (simp add: from_implement_ok run_stage_def)
  finally show ?thesis
    using assms(12-14)
    by (simp add: from_create_pr_missing run_stage_def yield_response_def state_get_def)
qed

theorem C6_no_pr_output_witness:
  "run_async_impl (example_stages\<lparr>pr_agent := silent [''push rejected'']\<rparr>)
     (initial_state ''https://github.com/o/r/issues/7'') =
     \<lparr>out = [StageEvent ''fetched'', StageEvent ''analyzed'', StageEvent ''implemented'',
             StageEvent ''push rejected'',
             Response \<lparr>success = False, error = PStr ''PR creation failed'',
               issue_details = PStr ''issue at https://github.com/o/r/issues/7'',
               analysis = PStr ''<analysis/>'',
               implementation_summary =
                 PStr ''Changes were implemented but PR creation failed'',
               pull_request = PNone\<rparr>],
      calls = [Fetch_issue, Analyze_issue, Implement_fix, Create_pr],
      sess = (initial_state ''https://github.com/o/r/issues/7'')
               (''issue_details'' \<mapsto> PStr ''issue at https://github.com/o/r/issues/7'',
                ''analysis'' \<mapsto> PStr ''<analysis/>'')\<rparr>"
  using C6_no_pr_output [of "initial_state ''https://github.com/o/r/issues/7''"
      "''https://github.com/o/r/issues/7''" _
      "example_stages\<lparr>pr_agent := silent [''push rejected'']\<rparr>", OF _ _ _ refl _ _ refl _ _ refl _ refl]
  by (simp add: state_get_default_def state_get_def initial_state_def example_stages_def
      silent_def writes_def)

section \<open>Full success\<close>

text \<open>
  C1. If the URL is valid, the four stages complete without raising, and the checked
  keys are truthy (\<open>issue_details\<close> after stage 1, \<open>analysis\<close> after stage 2, \<open>pr_output\<close>
  after stage 4), the run yields the stages' events followed by one envelope with
  \<open>success\<close> true, \<open>error\<close> null, \<open>issue_details\<close>, \<open>analysis\<close> and \<open>pull_request\<close> read
  from the final session state (keys \<open>issue_details\<close>, \<open>analysis\<close>, \<open>pr_output\<close>), and the
  fixed summary \<open>Successfully implemented code changes based on issue analysis\<close>.
\<close>

theorem C1_full_success:
  assumes "state_get_default st ''issue_url'' (PStr '''') = PStr u"
    and "startswith u ''https://github.com/''" and "str_contains u ''/issues/''"
    and "r1 = fetch_agent ags u st" and "raised r1 = None"
    and "truthy (state_get (state_after r1) ''issue_details'')"
    and "r2 = analyze_agent ags (state_after r1)" and "raised r2 = None"
    and "truthy (state_get (state_after r2) ''analysis'')"
    and "r3 = implement_agent ags (state_after r2)" and "raised r3 = None"
    and "r4 = pr_agent ags (state_after r3)" and "raised r4 = None"
    and "truthy (state_get (state_after r4) ''pr_output'')"
  shows "run_async_impl ags st =
           \<lparr>out = map StageEvent (yielded r1 @ yielded r2 @ yielded r3 @ yielded r4) @
                  [Response \<lparr>success = True, error = PNone,
                     issue_details = state_get (state_after r4) ''issue_details'',
                     analysis = state_get (state_after r4) ''analysis'',
                     implementation_summary =
                       PStr ''Successfully implemented code changes based on issue analysis'',
                     pull_request = state_get (state_after r4) ''pr_output''\<rparr>],
            calls = [Fetch_issue, Analyze_issue, Implement_fix, Create_pr],
            sess = state_after r4\<rparr>"
proof -
  let ?g1 = "run_stage Fetch_issue r1 \<lparr>out = [], calls = [], sess = st\<rparr>"
  let ?g2 = "run_stage Analyze_issue r2 ?g1"
  let ?g3 = "run_stage Implement_fix r3 ?g2"
  have "run_async_impl ags st = from_fetch ags u \<lparr>out = [], calls = [], sess = st\<rparr>"
    using assms(1-3) by (rule run_valid)
  also have "\<dots> = from_analyze ags ?g1"
    using assms(4-6) by (simp add: from_fetch_ok)
  also have "\<dots> = from_implement ags ?g2"
    using assms(7-9) by (simp add: from_analyze_ok run_stage_def)
  also have "\<dots> = from_create_pr ags ?g3"
    using assms(10,11) by (simp add: from_implement_ok run_stage_def)
  finally show ?thesis
    using assms(12-14)
    by (simp add: from_create_pr_ok run_stage_def yield_response_def)
qed

theorem C1_full_success_witness:
  "run_async_impl example_stages (initial_state ''https://github.com/o/r/issues/7'') =
     \<lparr>out = [StageEvent ''fetched'', StageEvent ''analyzed'', StageEvent ''implemented'',
             StageEvent ''opened'',
             Response \<lparr>success = True, error = PNone,
               issue_details = PStr ''issue at https://github.com/o/r/issues/7'',
               analysis = PStr ''<analysis/>'',
               implementation_summary =
                 PStr ''Successfully implemented code changes based on issue analysis'',
               pull_request = PStr ''pull/2''\<rparr>],
      calls = [Fetch_issue, Analyze_issue, Implement_fix, Create_pr],
      sess = (initial_state ''https://github.com/o/r/issues/7'')
               (''issue_details'' \<mapsto> PStr ''issue at https://github.com/o/r/issues/7'',
                ''analysis'' \<mapsto> PStr ''<analysis/>'',
                ''pr_output'' \<mapsto> PStr ''pull/2'')\<rparr>"
  using C1_full_success [of "initial_state ''https://github.com/o/r/issues/7''"
      "''https://github.com/o/r/issues/7''" _ example_stages,
      OF _ _ _ refl _ _ refl _ _ refl _ refl]
  by (simp add: state_get_default_def state_get_def initial_state_def example_stages_def
      silent_def writes_def)

section \<open>Exceptions\<close>

text \<open>
  C3. Let the URL be valid and let a stage raise an exception with message \<open>m\<close>: stage 1,
  or stage 2 after stage 1 passed its check, or stage 3 after stages 1 and 2 passed
  theirs, or stage 4 after stage 3 completed. Then the run yields the events streamed so
  far followed by exactly one envelope: \<open>success\<close> false, error \<open>Unexpected error: \<close>
  followed by \<open>m\<close>, and \<open>issue_details\<close>, \<open>analysis\<close>, \<open>implementation_summary\<close>,
  \<open>pull_request\<close> read from the keys \<open>issue_details\<close>, \<open>analysis\<close>,
  \<open>implementation_summary\<close>, \<open>pr_output\<close> of the session state at the raise (null where
  the key is absent). No later stage is invoked.
\<close>

theorem C3_exception_envelope:
  assumes "state_get_default st ''issue_url'' (PStr '''') = PStr u"
    and "startswith u ''https://github.com/''" and "str_contains u ''/issues/''"
    and "r1 = fetch_agent ags u st"
    and "r2 = analyze_agent ags (state_after r1)"
    and "r3 = implement_agent ags (state_after r2)"
    and "r4 = pr_agent ags (state_after r3)"
    and "env = (\<lambda>s. \<lparr>success = False, error = PStr (''Unexpected error: '' @ m),
                     issue_details = state_get s ''issue_details'',
                     analysis = state_get s ''analysis'',
                     implementation_summary = state_get s ''implementation_summary'',
                     pull_request = state_get s ''pr_output''\<rparr>)"
  shows "(raised r1 = Some m \<longrightarrow>
            run_async_impl ags st =
              \<lparr>out = map StageEvent (yielded r1) @ [Response (env (state_after r1))],
               calls = [Fetch_issue], sess = state_after r1\<rparr>)
       \<and> (raised r1 = None \<and> truthy (state_get (state_after r1) ''issue_details'')
            \<and> raised r2 = Some m \<longrightarrow>
            run_async_impl ags st =
              \<lparr>out = map StageEvent (yielded r1 @ yielded r2) @
                     [Response (env (state_after r2))],
               calls = [Fetch_issue, Analyze_issue], sess = state_after r2\<rparr>)
       \<and> (raised r1 = None \<and> truthy (state_get (state_after r1) ''issue_details'')
            \<and> raised r2 = None \<and> truthy (state_get (state_after r2) ''analysis'')
            \<and> raised r3 = Some m \<longrightarrow>
            run_async_impl ags st =
              \<lparr>out = map StageEvent (yielded r1 @ yielded r2 @ yielded r3) @
                     [Response (env (state_after r3))],
               calls = [Fetch_issue, Analyze_issue, Implement_fix], sess = state_after r3\<rparr>)
       \<and> (raised r1 = None \<and> truthy (state_get (state_after r1) ''issue_details'')
            \<and> raised r2 = None \<and> truthy (state_get (state_after r2) ''analysis'')
            \<and> raised r3 = None \<and> raised r4 = Some m \<longrightarrow>
            run_async_impl ags st =
              \<lparr>out = map StageEvent (yielded r1 @ yielded r2 @ yielded r3 @ yielded r4) @
                     [Response (env (state_after r4))],
               calls = [Fetch_issue, Analyze_issue, Implement_fix, Create_pr],
               sess = state_after r4\<rparr>)"
proof -
  let ?g0 = "\<lparr>out = [], calls = [], sess = st\<rparr> :: 'a gen"
  let ?g1 = "run_stage Fetch_issue r1 ?g0"
  let ?g2 = "run_stage Analyze_issue r2 ?g1"
  let ?g3 = "run_stage Implement_fix r3 ?g2"
  let ?g4 = "run_stage Create_pr r4 ?g3"
  have start: "run_async_impl ags st = from_fetch ags u ?g0"
    using assms(1-3) by (rule run_valid)
  have s1: "raised r1 = Some m \<Longrightarrow> run_async_impl ags st = except_handler m ?g1"
    using assms(4) by (simp add: start from_fetch_raise)
  have p1: "from_fetch ags u ?g0 = from_analyze ags ?g1"
    if "raised r1 = None" "truthy (state_get (state_after r1) ''issue_details'')"
    using that assms(4) by (simp add: from_fetch_ok)
  have s2: "from_analyze ags ?g1 = except_handler m ?g2" if "raised r2 = Some m"
    using that assms(5) by (simp add: from_analyze_raise run_stage_def)
  have p2: "from_analyze ags ?g1 = from_implement ags ?g2"
    if "raised r2 = None" "truthy (state_get (state_after r2) ''analysis'')"
    using that assms(5) by (simp add: from_analyze_ok run_stage_def)
  have s3: "from_implement ags ?g2 = except_handler m ?g3" if "raised r3 = Some m"
    using that assms(6) by (simp add: from_implement_raise run_stage_def)
  have p3: "from_implement ags ?g2 = from_create_pr ags ?g3" if "raised r3 = None"
    using that assms(6) by (simp add: from_implement_ok run_stage_def)
  have s4: "from_create_pr ags ?g3 = except_handler m ?g4" if "raised r4 = Some m"
    using that assms(7) by (simp add: from_create_pr_raise run_stage_def)
  have h: "except_handler m g = g\<lparr>out := out g @ [Response (env (sess g))]\<rparr>" for g :: "'a gen"
    by (simp add: except_handler_def yield_response_def assms(8))
  show ?thesis
  proof (intro conjI impI)
    assume "raised r1 = Some m"
    then show "run_async_impl ags st =
        \<lparr>out = map StageEvent (yielded r1) @ [Response (env (state_after r1))],
         calls = [Fetch_issue], sess = state_after r1\<rparr>"
      by (simp add: s1 h run_stage_def)
  next
    assume a: "raised r1 = None \<and> truthy (state_get (state_after r1) ''issue_details'')
      \<and> raised r2 = Some m"
    then have "run_async_impl ags st = except_handler m ?g2"
      by (simp add: start p1 s2)
    then show "run_async_impl ags st =
        \<lparr>out = map StageEvent (yielded r1 @ yielded r2) @ [Response (env (state_after r2))],
         calls = [Fetch_issue, Analyze_issue], sess = state_after r2\<rparr>"
      by (simp add: h run_stage_def)
  next
    assume a: "raised r1 = None \<and> truthy (state_get (state_after r1) ''issue_details'')
      \<and> raised r2 = None \<and> truthy (state_get (state_after r2) ''analysis'')
      \<and> raised r3 = Some m"
    then have "run_async_impl ags st = except_handler m ?g3"
      by (simp add: start p1 p2 s3)
    then show "run_async_impl ags st =
        \<lparr>out = map StageEvent (yielded r1 @ yielded r2 @ yielded r3) @
               [Response (env (state_after r3))],
         calls = [Fetch_issue, Analyze_issue, Implement_fix], sess = state_after r3\<rparr>"
      by (simp add: h run_stage_def)
  next
    assume a: "raised r1 = None \<and> truthy (state_get (state_after r1) ''issue_details'')
      \<and> raised r2 = None \<and> truthy (state_get (state_after r2) ''analysis'')
      \<and> raised r3 = None \<and> raised r4 = Some m"
    then have "run_async_impl ags st = except_handler m ?g4"
      by (simp add: start p1 p2 p3 s4)
    then show "run_async_impl ags st =
        \<lparr>out = map StageEvent (yielded r1 @ yielded r2 @ yielded r3 @ yielded r4) @
               [Response (env (state_after r4))],
         calls = [Fetch_issue, Analyze_issue, Implement_fix, Create_pr],
         sess = state_after r4\<rparr>"
      by (simp add: h run_stage_def)
  qed
qed

theorem C3_exception_envelope_witness:
  "run_async_impl (example_stages\<lparr>fetch_agent := \<lambda>u. failing ''gh: not logged in'' [''trying'']\<rparr>)
     (initial_state ''https://github.com/o/r/issues/7'') =
     \<lparr>out = [StageEvent ''trying'',
             Response \<lparr>success = False, error = PStr ''Unexpected error: gh: not logged in'',
               issue_details = PNone, analysis = PNone, implementation_summary = PNone,
               pull_request = PNone\<rparr>],
      calls = [Fetch_issue],
      sess = initial_state ''https://github.com/o/r/issues/7''\<rparr>
   \<and> run_async_impl (example_stages\<lparr>analyze_agent := failing ''quota exceeded'' []\<rparr>)
     (initial_state ''https://github.com/o/r/issues/7'') =
     \<lparr>out = [StageEvent ''fetched'',
             Response \<lparr>success = False, error = PStr ''Unexpected error: quota exceeded'',
               issue_details = PStr ''issue at https://github.com/o/r/issues/7'',
               analysis = PNone, implementation_summary = PNone, pull_request = PNone\<rparr>],
      calls = [Fetch_issue, Analyze_issue],
      sess = (initial_state ''https://github.com/o/r/issues/7'')
               (''issue_details'' \<mapsto> PStr ''issue at https://github.com/o/r/issues/7'')\<rparr>
   \<and> run_async_impl (example_stages\<lparr>implement_agent := failing ''sed failed'' [''editing'']\<rparr>)
     (initial_state ''https://github.com/o/r/issues/7'') =
     \<lparr>out = [StageEvent ''fetched'', StageEvent ''analyzed'', StageEvent ''editing'',
             Response \<lparr>success = False, error = PStr ''Unexpected error: sed failed'',
               issue_details = PStr ''issue at https://github.com/o/r/issues/7'',
               analysis = PStr ''<analysis/>'', implementation_summary = PNone,
               pull_request = PNone\<rparr>],
      calls = [Fetch_issue, Analyze_issue, Implement_fix],
      sess = (initial_state ''https://github.com/o/r/issues/7'')
               (''issue_details'' \<mapsto> PStr ''issue at https://github.com/o/r/issues/7'',
                ''analysis'' \<mapsto> PStr ''<analysis/>'')\<rparr>
   \<and> run_async_impl (example_stages\<lparr>pr_agent := failing ''push rejected'' []\<rparr>)
     (initial_state ''https://github.com/o/r/issues/7'') =
     \<lparr>out = [StageEvent ''fetched'', StageEvent ''analyzed'', StageEvent ''implemented'',
             Response \<lparr>success = False, error = PStr ''Unexpected error: push rejected'',
               issue_details = PStr ''issue at https://github.com/o/r/issues/7'',
               analysis = PStr ''<analysis/>'', implementation_summary = PNone,
               pull_request = PNone\<rparr>],
      calls = [Fetch_issue, Analyze_issue, Implement_fix, Create_pr],
      sess = (initial_state ''https://github.com/o/r/issues/7'')
               (''issue_details'' \<mapsto> PStr ''issue at https://github.com/o/r/issues/7'',
                ''analysis'' \<mapsto> PStr ''<analysis/>'')\<rparr>"
proof (intro conjI)
  let ?st = "initial_state ''https://github.com/o/r/issues/7''"
  let ?u = "''https://github.com/o/r/issues/7''"
  have url: "state_get_default ?st ''issue_url'' (PStr '''') = PStr ?u"
    "startswith ?u ''https://github.com/''" "str_contains ?u ''/issues/''"
    by (simp_all add: state_get_default_def initial_state_def)
  show "run_async_impl (example_stages\<lparr>fetch_agent := \<lambda>u. failing ''gh: not logged in'' [''trying'']\<rparr>)
     ?st =
     \<lparr>out = [StageEvent ''trying'',
             Response \<lparr>success = False, error = PStr ''Unexpected error: gh: not logged in'',
               issue_details = PNone, analysis = PNone, implementation_summary = PNone,
               pull_request = PNone\<rparr>],
      calls = [Fetch_issue], sess = ?st\<rparr>"
    using C3_exception_envelope [OF url refl refl refl refl refl,
        of "example_stages\<lparr>fetch_agent := \<lambda>u. failing ''gh: not logged in'' [''trying'']\<rparr>"
        "''gh: not logged in''"]
    by (simp add: state_get_def initial_state_def failing_def)
  show "run_async_impl (example_stages\<lparr>analyze_agent := failing ''quota exceeded'' []\<rparr>) ?st =
     \<lparr>out = [StageEvent ''fetched'',
             Response \<lparr>success = False, error = PStr ''Unexpected error: quota exceeded'',
               issue_details = PStr ''issue at https://github.com/o/r/issues/7'',
               analysis = PNone, implementation_summary = PNone, pull_request = PNone\<rparr>],
      calls = [Fetch_issue, Analyze_issue],
      sess = ?st(''issue_details'' \<mapsto> PStr ''issue at https://github.com/o/r/issues/7'')\<rparr>"
    using C3_exception_envelope [OF url refl refl refl refl refl,
        of "example_stages\<lparr>analyze_agent := failing ''quota exceeded'' []\<rparr>"
        "''quota exceeded''"]
    by (simp add: state_get_def initial_state_def failing_def example_stages_def writes_def)
  show "run_async_impl (example_stages\<lparr>implement_agent := failing ''sed failed'' [''editing'']\<rparr>)
     ?st =
     \<lparr>out = [StageEvent ''fetched'', StageEvent ''analyzed'', StageEvent ''editing'',
             Response \<lparr>success = False, error = PStr ''Unexpected error: sed failed'',
               issue_details = PStr ''issue at https://github.com/o/r/issues/7'',
               analysis = PStr ''<analysis/>'', implementation_summary = PNone,
               pull_request = PNone\<rparr>],
      calls = [Fetch_issue, Analyze_issue, Implement_fix],
      sess = ?st(''issue_details'' \<mapsto> PStr ''issue at https://github.com/o/r/issues/7'',
                ''analysis'' \<mapsto> PStr ''<analysis/>'')\<rparr>"
    using C3_exception_envelope [OF url refl refl refl refl refl,
        of "example_stages\<lparr>implement_agent := failing ''sed failed'' [''editing'']\<rparr>"
        "''sed failed''"]
    by (simp add: state_get_def initial_state_def failing_def example_stages_def writes_def)
  show "run_async_impl (example_stages\<lparr>pr_agent := failing ''push rejected'' []\<rparr>) ?st =
     \<lparr>out = [StageEvent ''fetched'', StageEvent ''analyzed'', StageEvent ''implemented'',
             Response \<lparr>success = False, error = PStr ''Unexpected error: push rejected'',
               issue_details = PStr ''issue at https://github.com/o/r/issues/7'',
               analysis = PStr ''<analysis/>'', implementation_summary = PNone,
               pull_request = PNone\<rparr>],
      calls = [Fetch_issue, Analyze_issue, Implement_fix, Create_pr],
      sess = ?st(''issue_details'' \<mapsto> PStr ''issue at https://github.com/o/r/issues/7'',
                ''analysis'' \<mapsto> PStr ''<analysis/>'')\<rparr>"
    using C3_exception_envelope [OF url refl refl refl refl refl,
        of "example_stages\<lparr>pr_agent := failing ''push rejected'' []\<rparr>"
        "''push rejected''"]
    by (simp add: state_get_def initial_state_def failing_def example_stages_def writes_def
        silent_def)
qed

section \<open>Which stages are invoked, and what is yielded\<close>

lemma calls_from_create_pr: "calls (from_create_pr ags g) = calls g @ [Create_pr]"
  by (simp add: from_create_pr_def Let_def except_handler_def yield_response_def run_stage_def
      split: option.splits)

lemma calls_from_fetch: "\<exists>cs. calls (from_fetch ags u g) = calls g @ Fetch_issue # cs"
  by (simp add: from_fetch_def from_analyze_def from_implement_def calls_from_create_pr Let_def
      except_handler_def yield_response_def run_stage_def split: option.splits)

lemma out_from_create_pr:
  "\<exists>evs e. out (from_create_pr ags g) = out g @ map StageEvent evs @ [Response e]"
  by (auto simp: from_create_pr_def Let_def except_handler_def yield_response_def run_stage_def
      split: option.splits)

lemma out_from_implement:
  "\<exists>evs e. out (from_implement ags g) = out g @ map StageEvent evs @ [Response e]"
proof (cases "raised (implement_agent ags (sess g))")
  case None
  let ?r = "implement_agent ags (sess g)"
  obtain evs e where
    "out (from_create_pr ags (run_stage Implement_fix ?r g)) =
       out (run_stage Implement_fix ?r g) @ map StageEvent evs @ [Response e]"
    using out_from_create_pr by blast
  then have "out (from_implement ags g) = out g @ map StageEvent (yielded ?r @ evs) @ [Response e]"
    using None by (simp add: from_implement_ok run_stage_def)
  then show ?thesis by blast
next
  case (Some msg)
  then show ?thesis
    by (auto simp: from_implement_raise except_handler_def yield_response_def run_stage_def)
qed

lemma out_from_analyze:
  "\<exists>evs e. out (from_analyze ags g) = out g @ map StageEvent evs @ [Response e]"
proof -
  let ?r = "analyze_agent ags (sess g)"
  consider (raise) msg where "raised ?r = Some msg"
    | (missing) "raised ?r = None" "\<not> truthy (state_get (state_after ?r) ''analysis'')"
    | (ok) "raised ?r = None" "truthy (state_get (state_after ?r) ''analysis'')"
    by (cases "raised ?r") auto
  then show ?thesis
  proof cases
    case raise
    then show ?thesis
      by (auto simp: from_analyze_raise except_handler_def yield_response_def run_stage_def)
  next
    case missing
    then show ?thesis
      by (auto simp: from_analyze_missing yield_response_def run_stage_def)
  next
    case ok
    obtain evs e where
      "out (from_implement ags (run_stage Analyze_issue ?r g)) =
         out (run_stage Analyze_issue ?r g) @ map StageEvent evs @ [Response e]"
      using out_from_implement by blast
    then have "out (from_analyze ags g) = out g @ map StageEvent (yielded ?r @ evs) @ [Response e]"
      using ok by (simp add: from_analyze_ok run_stage_def)
    then show ?thesis by blast
  qed
qed

lemma out_from_fetch:
  "\<exists>evs e. out (from_fetch ags u g) = out g @ map StageEvent evs @ [Response e]"
proof -
  let ?r = "fetch_agent ags u (sess g)"
  consider (raise) msg where "raised ?r = Some msg"
    | (missing) "raised ?r = None" "\<not> truthy (state_get (state_after ?r) ''issue_details'')"
    | (ok) "raised ?r = None" "truthy (state_get (state_after ?r) ''issue_details'')"
    by (cases "raised ?r") auto
  then show ?thesis
  proof cases
    case raise
    then show ?thesis
      by (auto simp: from_fetch_raise except_handler_def yield_response_def run_stage_def)
  next
    case missing
    then show ?thesis
      by (auto simp: from_fetch_missing yield_response_def run_stage_def)
  next
    case ok
    obtain evs e where
      "out (from_analyze ags (run_stage Fetch_issue ?r g)) =
         out (run_stage Fetch_issue ?r g) @ map StageEvent evs @ [Response e]"
      using out_from_analyze by blast
    then have "out (from_fetch ags u g) = out g @ map StageEvent (yielded ?r @ evs) @ [Response e]"
      using ok by (simp add: from_fetch_ok run_stage_def)
    then show ?thesis by blast
  qed
qed

text \<open>
  C7. Whatever the stages do and whatever the session state holds, the events the driver
  yields are events of the stages followed by one envelope: the driver yields exactly one
  envelope in a run, as its last event.
\<close>

theorem C7_exactly_one_envelope:
  "\<exists>evs e. out (run_async_impl ags st) = map StageEvent evs @ [Response e]"
proof -
  let ?v = "state_get_default st ''issue_url'' (PStr '''')"
  have direct: "\<exists>evs e. out (yield_response \<lparr>out = [], calls = [], sess = st\<rparr> x)
      = map StageEvent evs @ [Response e]" for x :: envelope
    by (simp add: yield_response_def)
  have handler: "\<exists>evs e. out (except_handler m \<lparr>out = [], calls = [], sess = st\<rparr>)
      = map StageEvent evs @ [Response (e :: envelope)]" for m
    by (simp add: except_handler_def yield_response_def)
  have fetch: "\<exists>evs e. out (from_fetch ags u \<lparr>out = [], calls = [], sess = st\<rparr>)
      = map StageEvent evs @ [Response e]" for u
    using out_from_fetch [of ags u "\<lparr>out = [], calls = [], sess = st\<rparr>"] by simp
  show ?thesis
  proof (cases "truthy ?v")
    case False
    then show ?thesis by (simp add: run_no_url)
  next
    case True
    show ?thesis
    proof (cases ?v)
      case (PStr u)
      show ?thesis
      proof (cases "startswith u ''https://github.com/'' \<and> str_contains u ''/issues/''")
        case True
        with PStr have "run_async_impl ags st = from_fetch ags u \<lparr>out = [], calls = [], sess = st\<rparr>"
          by (simp add: run_valid)
        with fetch [of u] show ?thesis by simp
      next
        case False
        from True PStr have "u \<noteq> []" by simp
        with PStr False show ?thesis by (simp add: run_bad_format)
      qed
    qed (use True handler in \<open>simp_all add: run_async_impl_def Let_def\<close>)
  qed
qed

text \<open>
  C8. For a string URL, stage 1 is invoked, with that URL and as the first thing the
  driver does, as soon as the URL starts with \<open>https://github.com/\<close> and has \<open>/issues/\<close>
  somewhere as a substring; nothing else about the URL is tested. A URL that fails one
  of the two tests invokes no stage.
\<close>

theorem C8_prefix_and_substring_suffice:
  assumes "state_get_default st ''issue_url'' (PStr '''') = PStr u"
  shows "((\<exists>r. u = ''https://github.com/'' @ r) \<and> (\<exists>a b. u = a @ ''/issues/'' @ b) \<longrightarrow>
            run_async_impl ags st = from_fetch ags u \<lparr>out = [], calls = [], sess = st\<rparr>
            \<and> (\<exists>cs. calls (run_async_impl ags st) = Fetch_issue # cs))
       \<and> (\<not> ((\<exists>r. u = ''https://github.com/'' @ r) \<and> (\<exists>a b. u = a @ ''/issues/'' @ b)) \<longrightarrow>
            calls (run_async_impl ags st) = [])"
proof (intro conjI impI)
  assume "(\<exists>r. u = ''https://github.com/'' @ r) \<and> (\<exists>a b. u = a @ ''/issues/'' @ b)"
  then have ok: "startswith u ''https://github.com/''" "str_contains u ''/issues/''"
    by (simp_all only: startswith_iff str_contains_iff)
  with assms show run: "run_async_impl ags st = from_fetch ags u \<lparr>out = [], calls = [], sess = st\<rparr>"
    by (rule run_valid)
  show "\<exists>cs. calls (run_async_impl ags st) = Fetch_issue # cs"
    using calls_from_fetch [of ags u "\<lparr>out = [], calls = [], sess = st\<rparr>"] by (simp add: run)
next
  assume "\<not> ((\<exists>r. u = ''https://github.com/'' @ r) \<and> (\<exists>a b. u = a @ ''/issues/'' @ b))"
  then have bad: "\<not> (startswith u ''https://github.com/'' \<and> str_contains u ''/issues/'')"
    by (simp only: startswith_iff str_contains_iff simp_thms)
  show "calls (run_async_impl ags st) = []"
  proof (cases "u = []")
    case True
    with assms show ?thesis by (simp add: run_no_url)
  next
    case False
    with assms bad show ?thesis by (simp add: run_bad_format)
  qed
qed

theorem C8_prefix_and_substring_suffice_witness:
  "(\<exists>cs. calls (run_async_impl example_stages (initial_state ''https://github.com/x/issues/''))
          = Fetch_issue # cs)
   \<and> (\<exists>cs. calls (run_async_impl example_stages (initial_state ''https://github.com/o/r#/issues/''))
          = Fetch_issue # cs)
   \<and> calls (run_async_impl example_stages (initial_state ''https://github.com/o/r/pull/3'')) = []"
proof (intro conjI)
  have get: "state_get_default (initial_state u) ''issue_url'' (PStr '''') = PStr u" for u
    by (simp add: state_get_default_def initial_state_def)
  have "startswith ''https://github.com/x/issues/'' ''https://github.com/''"
    and "str_contains ''https://github.com/x/issues/'' ''/issues/''"
    by simp_all
  then have "(\<exists>r. ''https://github.com/x/issues/'' = ''https://github.com/'' @ r)
      \<and> (\<exists>a b. ''https://github.com/x/issues/'' = a @ ''/issues/'' @ b)"
    by (simp only: startswith_iff str_contains_iff)
  with C8_prefix_and_substring_suffice [OF get, of "''https://github.com/x/issues/''" example_stages]
  show "\<exists>cs. calls (run_async_impl example_stages (initial_state ''https://github.com/x/issues/''))
          = Fetch_issue # cs"
    by blast
  have "startswith ''https://github.com/o/r#/issues/'' ''https://github.com/''"
    and "str_contains ''https://github.com/o/r#/issues/'' ''/issues/''"
    by simp_all
  then have "(\<exists>r. ''https://github.com/o/r#/issues/'' = ''https://github.com/'' @ r)
      \<and> (\<exists>a b. ''https://github.com/o/r#/issues/'' = a @ ''/issues/'' @ b)"
    by (simp only: startswith_iff str_contains_iff)
  with C8_prefix_and_substring_suffice [OF get, of "''https://github.com/o/r#/issues/''" example_stages]
  show "\<exists>cs. calls (run_async_impl example_stages (initial_state ''https://github.com/o/r#/issues/''))
          = Fetch_issue # cs"
    by blast
  have "\<not> str_contains ''https://github.com/o/r/pull/3'' ''/issues/''"
    by simp
  then have "\<not> ((\<exists>r. ''https://github.com/o/r/pull/3'' = ''https://github.com/'' @ r)
      \<and> (\<exists>a b. ''https://github.com/o/r/pull/3'' = a @ ''/issues/'' @ b))"
    by (simp only: startswith_iff str_contains_iff simp_thms)
  with C8_prefix_and_substring_suffice [OF get, of "''https://github.com/o/r/pull/3''" example_stages]
  show "calls (run_async_impl example_stages (initial_state ''https://github.com/o/r/pull/3'')) = []"
    by blast
qed

section \<open>The per-stage contract\<close>

text \<open>
  C2, as stated, fails at stage 3. In the example run stage 3 completes and writes
  nothing into the session state (it has no output key, and no
  \<open>implementation_summary\<close> key exists afterwards), yet stage 4 is invoked after it and
  the envelope reports success.
\<close>

theorem C2_counterexample:
  "output_key Implement_fix = None
   \<and> raised (implement_agent example_stages
        ((initial_state ''https://github.com/o/r/issues/7'')
           (''issue_details'' \<mapsto> PStr ''issue at https://github.com/o/r/issues/7'',
            ''analysis'' \<mapsto> PStr ''<analysis/>''))) = None
   \<and> state_after (implement_agent example_stages
        ((initial_state ''https://github.com/o/r/issues/7'')
           (''issue_details'' \<mapsto> PStr ''issue at https://github.com/o/r/issues/7'',
            ''analysis'' \<mapsto> PStr ''<analysis/>''))) =
       (initial_state ''https://github.com/o/r/issues/7'')
           (''issue_details'' \<mapsto> PStr ''issue at https://github.com/o/r/issues/7'',
            ''analysis'' \<mapsto> PStr ''<analysis/>'')
   \<and> state_after (implement_agent example_stages
        ((initial_state ''https://github.com/o/r/issues/7'')
           (''issue_details'' \<mapsto> PStr ''issue at https://github.com/o/r/issues/7'',
            ''analysis'' \<mapsto> PStr ''<analysis/>''))) ''implementation_summary'' = None
   \<and> calls (run_async_impl example_stages (initial_state ''https://github.com/o/r/issues/7''))
       = [Fetch_issue, Analyze_issue, Implement_fix, Create_pr]
   \<and> out (run_async_impl example_stages (initial_state ''https://github.com/o/r/issues/7''))
       = [StageEvent ''fetched'', StageEvent ''analyzed'', StageEvent ''implemented'',
          StageEvent ''opened'',
          Response \<lparr>success = True, error = PNone,
            issue_details = PStr ''issue at https://github.com/o/r/issues/7'',
            analysis = PStr ''<analysis/>'',
            implementation_summary =
              PStr ''Successfully implemented code changes based on issue analysis'',
            pull_request = PStr ''pull/2''\<rparr>]"
  by (simp add: run_async_impl_def from_fetch_def from_analyze_def from_implement_def
      from_create_pr_def run_stage_def yield_response_def state_get_def state_get_default_def
      initial_state_def example_stages_def writes_def silent_def Let_def)

text \<open>
  C2, amended. Let the URL be valid. For each of the stages 1, 2 and 4: if the stage is
  reached and completes without raising, and the value under its output key
  (\<open>issue_details\<close>, \<open>analysis\<close>, \<open>pr_output\<close>) is then absent or falsy, the run yields the
  events streamed so far followed by one envelope with \<open>success\<close> false, the stage's
  fixed error string (\<open>No issue_details found\<close>, \<open>No analysis found\<close>,
  \<open>PR creation failed\<close>) and the fields of the earlier stages read from the session
  state, and no later stage is invoked. Stage 3 has no output key and no check: whenever
  it completes without raising, stage 4 is invoked.
\<close>

theorem C2_missing_output_stops_run:
  assumes "state_get_default st ''issue_url'' (PStr '''') = PStr u"
    and "startswith u ''https://github.com/''" and "str_contains u ''/issues/''"
    and "r1 = fetch_agent ags u st"
    and "r2 = analyze_agent ags (state_after r1)"
    and "r3 = implement_agent ags (state_after r2)"
    and "r4 = pr_agent ags (state_after r3)"
  shows "(raised r1 = None \<and> \<not> truthy (state_get (state_after r1) ''issue_details'') \<longrightarrow>
            run_async_impl ags st =
              \<lparr>out = map StageEvent (yielded r1) @
                     [Response \<lparr>success = False, error = PStr ''No issue_details found'',
                        issue_details = PNone, analysis = PNone,
                        implementation_summary = PNone, pull_request = PNone\<rparr>],
               calls = [Fetch_issue], sess = state_after r1\<rparr>)
       \<and> (raised r1 = None \<and> truthy (state_get (state_after r1) ''issue_details'')
            \<and> raised r2 = None \<and> \<not> truthy (state_get (state_after r2) ''analysis'') \<longrightarrow>
            run_async_impl ags st =
              \<lparr>out = map StageEvent (yielded r1 @ yielded r2) @
                     [Response \<lparr>success = False, error = PStr ''No analysis found'',
                        issue_details = state_get (state_after r2) ''issue_details'',
                        analysis = PNone, implementation_summary = PNone,
                        pull_request = PNone\<rparr>],
               calls = [Fetch_issue, Analyze_issue], sess = state_after r2\<rparr>)
       \<and> (raised r1 = None \<and> truthy (state_get (state_after r1) ''issue_details'')
            \<and> raised r2 = None \<and> truthy (state_get (state_after r2) ''analysis'')
            \<and> raised r3 = None \<longrightarrow>
            calls (run_async_impl ags st)
              = [Fetch_issue, Analyze_issue, Implement_fix, Create_pr])
       \<and> (raised r1 = None \<and> truthy (state_get (state_after r1) ''issue_details'')
            \<and> raised r2 = None \<and> truthy (state_get (state_after r2) ''analysis'')
            \<and> raised r3 = None
            \<and> raised r4 = None \<and> \<not> truthy (state_get (state_after r4) ''pr_output'') \<longrightarrow>
            run_async_impl ags st =
              \<lparr>out = map StageEvent (yielded r1 @ yielded r2 @ yielded r3 @ yielded r4) @
                     [Response \<lparr>success = False, error = PStr ''PR creation failed'',
                        issue_details = state_get (state_after r4) ''issue_details'',
                        analysis = state_get (state_after r4) ''analysis'',
                        implementation_summary =
                          PStr ''Changes were implemented but PR creation failed'',
                        pull_request = PNone\<rparr>],
               calls = [Fetch_issue, Analyze_issue, Implement_fix, Create_pr],
               sess = state_after r4\<rparr>)"
proof -
  let ?g0 = "\<lparr>out = [], calls = [], sess = st\<rparr> :: 'a gen"
  let ?g1 = "run_stage Fetch_issue r1 ?g0"
  let ?g2 = "run_stage Analyze_issue r2 ?g1"
  let ?g3 = "run_stage Implement_fix r3 ?g2"
  have start: "run_async_impl ags st = from_fetch ags u ?g0"
    using assms(1-3) by (rule run_valid)
  have p1: "from_fetch ags u ?g0 = from_analyze ags ?g1"
    if "raised r1 = None" "truthy (state_get (state_after r1) ''issue_details'')"
    using that assms(4) by (simp add: from_fetch_ok)
  have p2: "from_analyze ags ?g1 = from_implement ags ?g2"
    if "raised r2 = None" "truthy (state_get (state_after r2) ''analysis'')"
    using that assms(5) by (simp add: from_analyze_ok run_stage_def)
  have p3: "from_implement ags ?g2 = from_create_pr ags ?g3" if "raised r3 = None"
    using that assms(6) by (simp add: from_implement_ok run_stage_def)
  show ?thesis
  proof (intro conjI impI)
    assume "raised r1 = None \<and> \<not> truthy (state_get (state_after r1) ''issue_details'')"
    then show "run_async_impl ags st =
        \<lparr>out = map StageEvent (yielded r1) @
               [Response \<lparr>success = False, error = PStr ''No issue_details found'',
                  issue_details = PNone, analysis = PNone,
                  implementation_summary = PNone, pull_request = PNone\<rparr>],
         calls = [Fetch_issue], sess = state_after r1\<rparr>"
      using assms(4) by (simp add: start from_fetch_missing yield_response_def run_stage_def)
  next
    assume a: "raised r1 = None \<and> truthy (state_get (state_after r1) ''issue_details'')
      \<and> raised r2 = None \<and> \<not> truthy (state_get (state_after r2) ''analysis'')"
    then have "run_async_impl ags st = from_analyze ags ?g1"
      by (simp add: start p1)
    with a show "run_async_impl ags st =
        \<lparr>out = map StageEvent (yielded r1 @ yielded r2) @
               [Response \<lparr>success = False, error = PStr ''No analysis found'',
                  issue_details = state_get (state_after r2) ''issue_details'',
                  analysis = PNone, implementation_summary = PNone, pull_request = PNone\<rparr>],
         calls = [Fetch_issue, Analyze_issue], sess = state_after r2\<rparr>"
      using assms(5) by (simp add: from_analyze_missing yield_response_def run_stage_def)
  next
    assume a: "raised r1 = None \<and> truthy (state_get (state_after r1) ''issue_details'')
      \<and> raised r2 = None \<and> truthy (state_get (state_after r2) ''analysis'')
      \<and> raised r3 = None"
    then have "run_async_impl ags st = from_create_pr ags ?g3"
      by (simp add: start p1 p2 p3)
    then show "calls (run_async_impl ags st)
        = [Fetch_issue, Analyze_issue, Implement_fix, Create_pr]"
      by (simp add: calls_from_create_pr run_stage_def)
  next
    assume a: "raised r1 = None \<and> truthy (state_get (state_after r1) ''issue_details'')
      \<and> raised r2 = None \<and> truthy (state_get (state_after r2) ''analysis'')
      \<and> raised r3 = None
      \<and> raised r4 = None \<and> \<not> truthy (state_get (state_after r4) ''pr_output'')"
    then have "run_async_impl ags st = from_create_pr ags ?g3"
      by (simp add: start p1 p2 p3)
    with a show "run_async_impl ags st =
        \<lparr>out = map StageEvent (yielded r1 @ yielded r2 @ yielded r3 @ yielded r4) @
               [Response \<lparr>success = False, error = PStr ''PR creation failed'',
                  issue_details = state_get (state_after r4) ''issue_details'',
                  analysis = state_get (state_after r4) ''analysis'',
                  implementation_summary =
                    PStr ''Changes were implemented but PR creation failed'',
                  pull_request = PNone\<rparr>],
         calls = [Fetch_issue, Analyze_issue, Implement_fix, Create_pr],
         sess = state_after r4\<rparr>"
      using assms(7) by (simp add: from_create_pr_missing yield_response_def run_stage_def)
  qed
qed

theorem C2_missing_output_stops_run_witness:
  "run_async_impl (example_stages\<lparr>fetch_agent := \<lambda>u. silent [''gh: not found'']\<rparr>)
     (initial_state ''https://github.com/o/r/issues/7'') =
     \<lparr>out = [StageEvent ''gh: not found'',
             Response \<lparr>success = False, error = PStr ''No issue_details found'',
               issue_details = PNone, analysis = PNone, implementation_summary = PNone,
               pull_request = PNone\<rparr>],
      calls = [Fetch_issue],
      sess = initial_state ''https://github.com/o/r/issues/7''\<rparr>
   \<and> run_async_impl (example_stages\<lparr>analyze_agent := silent [''no idea'']\<rparr>)
     (initial_state ''https://github.com/o/r/issues/7'') =
     \<lparr>out = [StageEvent ''fetched'', StageEvent ''no idea'',
             Response \<lparr>success = False, error = PStr ''No analysis found'',
               issue_details = PStr ''issue at https://github.com/o/r/issues/7'',
               analysis = PNone, implementation_summary = PNone, pull_request = PNone\<rparr>],
      calls = [Fetch_issue, Analyze_issue],
      sess = (initial_state ''https://github.com/o/r/issues/7'')
               (''issue_details'' \<mapsto> PStr ''issue at https://github.com/o/r/issues/7'')\<rparr>
   \<and> calls (run_async_impl example_stages (initial_state ''https://github.com/o/r/issues/7''))
       = [Fetch_issue, Analyze_issue, Implement_fix, Create_pr]
   \<and> run_async_impl (example_stages\<lparr>pr_agent := silent [''push rejected'']\<rparr>)
     (initial_state ''https://github.com/o/r/issues/7'') =
     \<lparr>out = [StageEvent ''fetched'', StageEvent ''analyzed'', StageEvent ''implemented'',
             StageEvent ''push rejected'',
             Response \<lparr>success = False, error = PStr ''PR creation failed'',
               issue_details = PStr ''issue at https://github.com/o/r/issues/7'',
               analysis = PStr ''<analysis/>'',
               implementation_summary =
                 PStr ''Changes were implemented but PR creation failed'',
               pull_request = PNone\<rparr>],
      calls = [Fetch_issue, Analyze_issue, Implement_fix, Create_pr],
      sess = (initial_state ''https://github.com/o/r/issues/7'')
               (''issue_details'' \<mapsto> PStr ''issue at https://github.com/o/r/issues/7'',
                ''analysis'' \<mapsto> PStr ''<analysis/>'')\<rparr>"
proof (intro conjI)
  let ?st = "initial_state ''https://github.com/o/r/issues/7''"
  let ?u = "''https://github.com/o/r/issues/7''"
  have url: "state_get_default ?st ''issue_url'' (PStr '''') = PStr ?u"
    "startswith ?u ''https://github.com/''" "str_contains ?u ''/issues/''"
    by (simp_all add: state_get_default_def initial_state_def)
  show "run_async_impl (example_stages\<lparr>fetch_agent := \<lambda>u. silent [''gh: not found'']\<rparr>) ?st =
     \<lparr>out = [StageEvent ''gh: not found'',
             Response \<lparr>success = False, error = PStr ''No issue_details found'',
               issue_details = PNone, analysis = PNone, implementation_summary = PNone,
               pull_request = PNone\<rparr>],
      calls = [Fetch_issue], sess = ?st\<rparr>"
    using C2_missing_output_stops_run [OF url refl refl refl refl,
        of "example_stages\<lparr>fetch_agent := \<lambda>u. silent [''gh: not found'']\<rparr>"]
    by (simp add: state_get_def initial_state_def silent_def)
  show "run_async_impl (example_stages\<lparr>analyze_agent := silent [''no idea'']\<rparr>) ?st =
     \<lparr>out = [StageEvent ''fetched'', StageEvent ''no idea'',
             Response \<lparr>success = False, error = PStr ''No analysis found'',
               issue_details = PStr ''issue at https://github.com/o/r/issues/7'',
               analysis = PNone, implementation_summary = PNone, pull_request = PNone\<rparr>],
      calls = [Fetch_issue, Analyze_issue],
      sess = ?st(''issue_details'' \<mapsto> PStr ''issue at https://github.com/o/r/issues/7'')\<rparr>"
    using C2_missing_output_stops_run [OF url refl refl refl refl,
        of "example_stages\<lparr>analyze_agent := silent [''no idea'']\<rparr>"]
    by (simp add: state_get_def initial_state_def silent_def example_stages_def writes_def)
  show "calls (run_async_impl example_stages ?st)
       = [Fetch_issue, Analyze_issue, Implement_fix, Create_pr]"
    using C2_missing_output_stops_run [OF url refl refl refl refl, of example_stages]
    by (simp add: state_get_def initial_state_def silent_def example_stages_def writes_def)
  show "run_async_impl (example_stages\<lparr>pr_agent := silent [''push rejected'']\<rparr>) ?st =
     \<lparr>out = [StageEvent ''fetched'', StageEvent ''analyzed'', StageEvent ''implemented'',
             StageEvent ''push rejected'',
             Response \<lparr>success = False, error = PStr ''PR creation failed'',
               issue_details = PStr ''issue at https://github.com/o/r/issues/7'',
               analysis = PStr ''<analysis/>'',
               implementation_summary =
                 PStr ''Changes were implemented but PR creation failed'',
               pull_request = PNone\<rparr>],
      calls = [Fetch_issue, Analyze_issue, Implement_fix, Create_pr],
      sess = ?st(''issue_details'' \<mapsto> PStr ''issue at https://github.com/o/r/issues/7'',
                ''analysis'' \<mapsto> PStr ''<analysis/>'')\<rparr>"
    using C2_missing_output_stops_run [OF url refl refl refl refl,
        of "example_stages\<lparr>pr_agent := silent [''push rejected'']\<rparr>"]
    by (simp add: state_get_def initial_state_def silent_def example_stages_def writes_def)
qed

section \<open>Falsy values under an output key\<close>

text \<open>
  C9. Let the URL be valid and let stage 1, 2 or 4 be reached and complete with a falsy
  value stored under its output key. Then the events yielded and the stages invoked are
  those of the missing-key exit of that stage, and they are the same as in the run
  whose stage leaves that key absent and does everything else alike.
\<close>

theorem C9_falsy_is_absent:
  assumes "state_get_default st ''issue_url'' (PStr '''') = PStr u"
    and "startswith u ''https://github.com/''" and "str_contains u ''/issues/''"
    and "r1 = fetch_agent ags u st"
    and "r2 = analyze_agent ags (state_after r1)"
    and "r3 = implement_agent ags (state_after r2)"
    and "r4 = pr_agent ags (state_after r3)"
    and "ags1 = ags\<lparr>fetch_agent := \<lambda>u s. without_key ''issue_details'' (fetch_agent ags u s)\<rparr>"
    and "ags2 = ags\<lparr>analyze_agent := \<lambda>s. without_key ''analysis'' (analyze_agent ags s)\<rparr>"
    and "ags4 = ags\<lparr>pr_agent := \<lambda>s. without_key ''pr_output'' (pr_agent ags s)\<rparr>"
  shows "(raised r1 = None \<and> state_after r1 ''issue_details'' = Some v \<and> \<not> truthy v \<longrightarrow>
            out (run_async_impl ags st) =
              map StageEvent (yielded r1) @
              [Response \<lparr>success = False, error = PStr ''No issue_details found'',
                 issue_details = PNone, analysis = PNone,
                 implementation_summary = PNone, pull_request = PNone\<rparr>]
            \<and> calls (run_async_impl ags st) = [Fetch_issue]
            \<and> out (run_async_impl ags1 st) = out (run_async_impl ags st)
            \<and> calls (run_async_impl ags1 st) = calls (run_async_impl ags st))
       \<and> (raised r1 = None \<and> truthy (state_get (state_after r1) ''issue_details'')
            \<and> raised r2 = None \<and> state_after r2 ''analysis'' = Some v \<and> \<not> truthy v \<longrightarrow>
            out (run_async_impl ags st) =
              map StageEvent (yielded r1 @ yielded r2) @
              [Response \<lparr>success = False, error = PStr ''No analysis found'',
                 issue_details = state_get (state_after r2) ''issue_details'',
                 analysis = PNone, implementation_summary = PNone, pull_request = PNone\<rparr>]
            \<and> calls (run_async_impl ags st) = [Fetch_issue, Analyze_issue]
            \<and> out (run_async_impl ags2 st) = out (run_async_impl ags st)
            \<and> calls (run_async_impl ags2 st) = calls (run_async_impl ags st))
       \<and> (raised r1 = None \<and> truthy (state_get (state_after r1) ''issue_details'')
            \<and> raised r2 = None \<and> truthy (state_get (state_after r2) ''analysis'')
            \<and> raised r3 = None
            \<and> raised r4 = None \<and> state_after r4 ''pr_output'' = Some v \<and> \<not> truthy v \<longrightarrow>
            out (run_async_impl ags st) =
              map StageEvent (yielded r1 @ yielded r2 @ yielded r3 @ yielded r4) @
              [Response \<lparr>success = False, error = PStr ''PR creation failed'',
                 issue_details = state_get (state_after r4) ''issue_details'',
                 analysis = state_get (state_after r4) ''analysis'',
                 implementation_summary =
                   PStr ''Changes were implemented but PR creation failed'',
                 pull_request = PNone\<rparr>]
            \<and> calls (run_async_impl ags st)
                = [Fetch_issue, Analyze_issue, Implement_fix, Create_pr]
            \<and> out (run_async_impl ags4 st) = out (run_async_impl ags st)
            \<and> calls (run_async_impl ags4 st) = calls (run_async_impl ags st))"
proof -
  let ?g0 = "\<lparr>out = [], calls = [], sess = st\<rparr> :: 'a gen"
  have start: "run_async_impl a st = from_fetch a u ?g0" for a :: "'a stages"
    using assms(1-3) by (rule run_valid)
  show ?thesis
  proof (intro conjI impI)
    assume a: "raised r1 = None \<and> state_after r1 ''issue_details'' = Some v \<and> \<not> truthy v"
    then have run: "run_async_impl ags st =
        \<lparr>out = map StageEvent (yielded r1) @
               [Response \<lparr>success = False, error = PStr ''No issue_details found'',
                  issue_details = PNone, analysis = PNone,
                  implementation_summary = PNone, pull_request = PNone\<rparr>],
         calls = [Fetch_issue], sess = state_after r1\<rparr>"
      using assms(4)
      by (simp add: start from_fetch_missing yield_response_def run_stage_def state_get_def)
    from a have run1: "run_async_impl ags1 st =
        \<lparr>out = map StageEvent (yielded r1) @
               [Response \<lparr>success = False, error = PStr ''No issue_details found'',
                  issue_details = PNone, analysis = PNone,
                  implementation_summary = PNone, pull_request = PNone\<rparr>],
         calls = [Fetch_issue], sess = (state_after r1)(''issue_details'' := None)\<rparr>"
      using assms(4,8)
      by (simp add: start from_fetch_missing yield_response_def run_stage_def state_get_def
          without_key_def)
    show "out (run_async_impl ags st) =
        map StageEvent (yielded r1) @
        [Response \<lparr>success = False, error = PStr ''No issue_details found'',
           issue_details = PNone, analysis = PNone,
           implementation_summary = PNone, pull_request = PNone\<rparr>]"
      and "calls (run_async_impl ags st) = [Fetch_issue]"
      and "out (run_async_impl ags1 st) = out (run_async_impl ags st)"
      and "calls (run_async_impl ags1 st) = calls (run_async_impl ags st)"
      by (simp_all add: run run1)
  next
    assume a: "raised r1 = None \<and> truthy (state_get (state_after r1) ''issue_details'')
      \<and> raised r2 = None \<and> state_after r2 ''analysis'' = Some v \<and> \<not> truthy v"
    let ?g1 = "run_stage Fetch_issue r1 ?g0"
    have p: "run_async_impl b st = from_analyze b ?g1"
      if "fetch_agent b = fetch_agent ags" for b :: "'a stages"
      using that a assms(4) by (simp add: start from_fetch_ok)
    from a have run: "run_async_impl ags st =
        \<lparr>out = map StageEvent (yielded r1 @ yielded r2) @
               [Response \<lparr>success = False, error = PStr ''No analysis found'',
                  issue_details = state_get (state_after r2) ''issue_details'',
                  analysis = PNone, implementation_summary = PNone, pull_request = PNone\<rparr>],
         calls = [Fetch_issue, Analyze_issue], sess = state_after r2\<rparr>"
      using assms(5)
      by (simp add: p from_analyze_missing yield_response_def run_stage_def state_get_def)
    from a have run2: "run_async_impl ags2 st =
        \<lparr>out = map StageEvent (yielded r1 @ yielded r2) @
               [Response \<lparr>success = False, error = PStr ''No analysis found'',
                  issue_details = state_get (state_after r2) ''issue_details'',
                  analysis = PNone, implementation_summary = PNone, pull_request = PNone\<rparr>],
         calls = [Fetch_issue, Analyze_issue], sess = (state_after r2)(''analysis'' := None)\<rparr>"
      using assms(5,9)
      by (simp add: p from_analyze_missing yield_response_def run_stage_def state_get_def
          without_key_def)
    show "out (run_async_impl ags st) =
        map StageEvent (yielded r1 @ yielded r2) @
        [Response \<lparr>success = False, error = PStr ''No analysis found'',
           issue_details = state_get (state_after r2) ''issue_details'',
           analysis = PNone, implementation_summary = PNone, pull_request = PNone\<rparr>]"
      and "calls (run_async_impl ags st) = [Fetch_issue, Analyze_issue]"
      and "out (run_async_impl ags2 st) = out (run_async_impl ags st)"
      and "calls (run_async_impl ags2 st) = calls (run_async_impl ags st)"
      by (simp_all add: run run2)
  next
    assume a: "raised r1 = None \<and> truthy (state_get (state_after r1) ''issue_details'')
      \<and> raised r2 = None \<and> truthy (state_get (state_after r2) ''analysis'')
      \<and> raised r3 = None
      \<and> raised r4 = None \<and> state_after r4 ''pr_output'' = Some v \<and> \<not> truthy v"
    let ?g1 = "run_stage Fetch_issue r1 ?g0"
    let ?g2 = "run_stage Analyze_issue r2 ?g1"
    let ?g3 = "run_stage Implement_fix r3 ?g2"
    have p: "run_async_impl b st = from_create_pr b ?g3"
      if "fetch_agent b = fetch_agent ags" "analyze_agent b = analyze_agent ags"
        "implement_agent b = implement_agent ags" for b :: "'a stages"
    proof -
      have "run_async_impl b st = from_analyze b ?g1"
        using that a assms(4) by (simp add: start from_fetch_ok)
      also have "\<dots> = from_implement b ?g2"
        using that a assms(5) by (simp add: from_analyze_ok run_stage_def)
      also have "\<dots> = from_create_pr b ?g3"
        using that a assms(6) by (simp add: from_implement_ok run_stage_def)
      finally show ?thesis .
    qed
    from a have run: "run_async_impl ags st =
        \<lparr>out = map StageEvent (yielded r1 @ yielded r2 @ yielded r3 @ yielded r4) @
               [Response \<lparr>success = False, error = PStr ''PR creation failed'',
                  issue_details = state_get (state_after r4) ''issue_details'',
                  analysis = state_get (state_after r4) ''analysis'',
                  implementation_summary =
                    PStr ''Changes were implemented but PR creation failed'',
                  pull_request = PNone\<rparr>],
         calls = [Fetch_issue, Analyze_issue, Implement_fix, Create_pr],
         sess = state_after r4\<rparr>"
      using assms(7)
      by (simp add: p from_create_pr_missing yield_response_def run_stage_def state_get_def)
    from a have run4: "run_async_impl ags4 st =
        \<lparr>out = map StageEvent (yielded r1 @ yielded r2 @ yielded r3 @ yielded r4) @
               [Response \<lparr>success = False, error = PStr ''PR creation failed'',
                  issue_details = state_get (state_after r4) ''issue_details'',
                  analysis = state_get (state_after r4) ''analysis'',
                  implementation_summary =
                    PStr ''Changes were implemented but PR creation failed'',
                  pull_request = PNone\<rparr>],
         calls = [Fetch_issue, Analyze_issue, Implement_fix, Create_pr],
         sess = (state_after r4)(''pr_output'' := None)\<rparr>"
      using assms(7,10)
      by (simp add: p from_create_pr_missing yield_response_def run_stage_def state_get_def
          without_key_def)
    show "out (run_async_impl ags st) =
        map StageEvent (yielded r1 @ yielded r2 @ yielded r3 @ yielded r4) @
        [Response \<lparr>success = False, error = PStr ''PR creation failed'',
           issue_details = state_get (state_after r4) ''issue_details'',
           analysis = state_get (state_after r4) ''analysis'',
           implementation_summary =
             PStr ''Changes were implemented but PR creation failed'',
           pull_request = PNone\<rparr>]"
      and "calls (run_async_impl ags st) = [Fetch_issue, Analyze_issue, Implement_fix, Create_pr]"
      and "out (run_async_impl ags4 st) = out (run_async_impl ags st)"
      and "calls (run_async_impl ags4 st) = calls (run_async_impl ags st)"
      by (simp_all add: run run4)
  qed
qed

theorem C9_falsy_is_absent_witness:
  "out (run_async_impl
          (example_stages\<lparr>fetch_agent := \<lambda>u. writes ''issue_details'' (PStr '''') [''fetched'']\<rparr>)
          (initial_state ''https://github.com/o/r/issues/7'')) =
     [StageEvent ''fetched'',
      Response \<lparr>success = False, error = PStr ''No issue_details found'',
        issue_details = PNone, analysis = PNone, implementation_summary = PNone,
        pull_request = PNone\<rparr>]
   \<and> out (run_async_impl
          (example_stages\<lparr>fetch_agent := \<lambda>u s. without_key ''issue_details''
             (writes ''issue_details'' (PStr '''') [''fetched''] s)\<rparr>)
          (initial_state ''https://github.com/o/r/issues/7'')) =
     [StageEvent ''fetched'',
      Response \<lparr>success = False, error = PStr ''No issue_details found'',
        issue_details = PNone, analysis = PNone, implementation_summary = PNone,
        pull_request = PNone\<rparr>]
   \<and> out (run_async_impl
          (example_stages\<lparr>analyze_agent := writes ''analysis'' (PStr '''') [''analyzed'']\<rparr>)
          (initial_state ''https://github.com/o/r/issues/7'')) =
     [StageEvent ''fetched'', StageEvent ''analyzed'',
      Response \<lparr>success = False, error = PStr ''No analysis found'',
        issue_details = PStr ''issue at https://github.com/o/r/issues/7'',
        analysis = PNone, implementation_summary = PNone, pull_request = PNone\<rparr>]
   \<and> out (run_async_impl
          (example_stages\<lparr>analyze_agent := \<lambda>s. without_key ''analysis''
             (writes ''analysis'' (PStr '''') [''analyzed''] s)\<rparr>)
          (initial_state ''https://github.com/o/r/issues/7'')) =
     [StageEvent ''fetched'', StageEvent ''analyzed'',
      Response \<lparr>success = False, error = PStr ''No analysis found'',
        issue_details = PStr ''issue at https://github.com/o/r/issues/7'',
        analysis = PNone, implementation_summary = PNone, pull_request = PNone\<rparr>]
   \<and> out (run_async_impl
          (example_stages\<lparr>pr_agent := writes ''pr_output'' (PStr '''') [''opened'']\<rparr>)
          (initial_state ''https://github.com/o/r/issues/7'')) =
     [StageEvent ''fetched'', StageEvent ''analyzed'', StageEvent ''implemented'',
      StageEvent ''opened'',
      Response \<lparr>success = False, error = PStr ''PR creation failed'',
        issue_details = PStr ''issue at https://github.com/o/r/issues/7'',
        analysis = PStr ''<analysis/>'',
        implementation_summary = PStr ''Changes were implemented but PR creation failed'',
        pull_request = PNone\<rparr>]
   \<and> out (run_async_impl
          (example_stages\<lparr>pr_agent := \<lambda>s. without_key ''pr_output''
             (writes ''pr_output'' (PStr '''') [''opened''] s)\<rparr>)
          (initial_state ''https://github.com/o/r/issues/7'')) =
     [StageEvent ''fetched'', StageEvent ''analyzed'', StageEvent ''implemented'',
      StageEvent ''opened'',
      Response \<lparr>success = False, error = PStr ''PR creation failed'',
        issue_details = PStr ''issue at https://github.com/o/r/issues/7'',
        analysis = PStr ''<analysis/>'',
        implementation_summary = PStr ''Changes were implemented but PR creation failed'',
        pull_request = PNone\<rparr>]"
proof -
  let ?st = "initial_state ''https://github.com/o/r/issues/7''"
  let ?u = "''https://github.com/o/r/issues/7''"
  have url: "state_get_default ?st ''issue_url'' (PStr '''') = PStr ?u"
    "startswith ?u ''https://github.com/''" "str_contains ?u ''/issues/''"
    by (simp_all add: state_get_default_def initial_state_def)
  note inst = C9_falsy_is_absent [OF url refl refl refl refl refl refl refl, of _ "PStr ''''"]
  have one: "out (run_async_impl
          (example_stages\<lparr>fetch_agent := \<lambda>u. writes ''issue_details'' (PStr '''') [''fetched'']\<rparr>)
          ?st) =
     [StageEvent ''fetched'',
      Response \<lparr>success = False, error = PStr ''No issue_details found'',
        issue_details = PNone, analysis = PNone, implementation_summary = PNone,
        pull_request = PNone\<rparr>]
   \<and> out (run_async_impl
          (example_stages\<lparr>fetch_agent := \<lambda>u s. without_key ''issue_details''
             (writes ''issue_details'' (PStr '''') [''fetched''] s)\<rparr>)
          ?st) =
     [StageEvent ''fetched'',
      Response \<lparr>success = False, error = PStr ''No issue_details found'',
        issue_details = PNone, analysis = PNone, implementation_summary = PNone,
        pull_request = PNone\<rparr>]"
    using inst [of "example_stages\<lparr>fetch_agent :=
        \<lambda>u. writes ''issue_details'' (PStr '''') [''fetched'']\<rparr>"]
    by (simp add: state_get_def initial_state_def writes_def)
  have two: "out (run_async_impl
          (example_stages\<lparr>analyze_agent := writes ''analysis'' (PStr '''') [''analyzed'']\<rparr>)
          ?st) =
     [StageEvent ''fetched'', StageEvent ''analyzed'',
      Response \<lparr>success = False, error = PStr ''No analysis found'',
        issue_details = PStr ''issue at https://github.com/o/r/issues/7'',
        analysis = PNone, implementation_summary = PNone, pull_request = PNone\<rparr>]
   \<and> out (run_async_impl
          (example_stages\<lparr>analyze_agent := \<lambda>s. without_key ''analysis''
             (writes ''analysis'' (PStr '''') [''analyzed''] s)\<rparr>)
          ?st) =
     [StageEvent ''fetched'', StageEvent ''analyzed'',
      Response \<lparr>success = False, error = PStr ''No analysis found'',
        issue_details = PStr ''issue at https://github.com/o/r/issues/7'',
        analysis = PNone, implementation_summary = PNone, pull_request = PNone\<rparr>]"
    using inst [of "example_stages\<lparr>analyze_agent :=
        writes ''analysis'' (PStr '''') [''analyzed'']\<rparr>"]
    by (simp add: state_get_def initial_state_def writes_def example_stages_def)
  have four: "out (run_async_impl
          (example_stages\<lparr>pr_agent := writes ''pr_output'' (PStr '''') [''opened'']\<rparr>)
          ?st) =
     [StageEvent ''fetched'', StageEvent ''analyzed'', StageEvent ''implemented'',
      StageEvent ''opened'',
      Response \<lparr>success = False, error = PStr ''PR creation failed'',
        issue_details = PStr ''issue at https://github.com/o/r/issues/7'',
        analysis = PStr ''<analysis/>'',
        implementation_summary = PStr ''Changes were implemented but PR creation failed'',
        pull_request = PNone\<rparr>]
   \<and> out (run_async_impl
          (example_stages\<lparr>pr_agent := \<lambda>s. without_key ''pr_output''
             (writes ''pr_output'' (PStr '''') [''opened''] s)\<rparr>)
          ?st) =
     [StageEvent ''fetched'', StageEvent ''analyzed'', StageEvent ''implemented'',
      StageEvent ''opened'',
      Response \<lparr>success = False, error = PStr ''PR creation failed'',
        issue_details = PStr ''issue at https://github.com/o/r/issues/7'',
        analysis = PStr ''<analysis/>'',
        implementation_summary = PStr ''Changes were implemented but PR creation failed'',
        pull_request = PNone\<rparr>]"
    using inst [of "example_stages\<lparr>pr_agent :=
        writes ''pr_output'' (PStr '''') [''opened'']\<rparr>"]
    by (simp add: state_get_def initial_state_def writes_def example_stages_def silent_def)
  from one two four show ?thesis by blast
qed

section \<open>The \<^verbatim>\<open>.env\<close> loader\<close>

lemma str_contains_eq_sign: "str_contains s ''='' \<longleftrightarrow> CHR ''='' \<in> set s"
proof
  assume "str_contains s ''=''"
  then obtain a b where "s = a @ ''='' @ b" by (auto simp: str_contains_iff)
  then show "CHR ''='' \<in> set s" by simp
next
  assume "CHR ''='' \<in> set s"
  then obtain a b where "s = a @ CHR ''='' # b" by (auto simp: in_set_conv_decomp)
  then have "s = a @ ''='' @ b" by simp
  then show "str_contains s ''=''" unfolding str_contains_iff by blast
qed

lemma split_eq1_first:
  assumes "CHR ''='' \<notin> set k"
  shows "split_eq1 (k @ CHR ''='' # v) = [k, v]"
proof -
  have "dropWhile (\<lambda>c. c \<noteq> CHR ''='') (k @ CHR ''='' # v) = CHR ''='' # v"
    using assms by (auto simp: dropWhile_append3)
  moreover have "takeWhile (\<lambda>c. c \<noteq> CHR ''='') (k @ CHR ''='' # v) = k"
    using assms by (auto simp: takeWhile_tail)
  ultimately show ?thesis by (simp add: split_eq1_def)
qed

lemma first_eq_sign:
  assumes "CHR ''='' \<in> set s"
  shows "\<exists>k v. s = k @ ''='' @ v \<and> CHR ''='' \<notin> set k"
proof -
  from assms obtain k v where "s = k @ CHR ''='' # v" "CHR ''='' \<notin> set k"
    by (auto dest: split_list_first)
  then have "s = k @ ''='' @ v \<and> CHR ''='' \<notin> set k" by simp
  then show ?thesis by blast
qed

lemma load_line_skip:
  "strip raw = [] \<or> startswith (strip raw) ''#'' \<or> CHR ''='' \<notin> set (strip raw) \<Longrightarrow>
   load_line env raw = Inr env"
  by (auto simp: load_line_def Let_def str_contains_eq_sign)

lemma load_line_split:
  assumes "strip raw = k @ ''='' @ v" and "CHR ''='' \<notin> set k"
    and "\<not> startswith (strip raw) ''#''"
  shows "load_line env raw = environ_setitem env k v"
proof -
  have "strip raw \<noteq> []" using assms(1) by simp
  moreover have "str_contains (strip raw) ''=''"
    using assms(1) by (simp add: str_contains_eq_sign)
  moreover have "split_eq1 (strip raw) = [k, v]"
    using assms(1,2) by (simp add: split_eq1_first)
  ultimately show ?thesis using assms(3) by (simp add: load_line_def Let_def)
qed

text \<open>
  C10, as stated, fails on the line \<open>=v\<close>. The line is not blank, does not start with
  \<open>#\<close> and has a \<open>=\<close>, so it is not skipped; it splits into the empty name and \<open>v\<close>; and
  the assignment raises \<^verbatim>\<open>OSError\<close> instead of binding anything, which ends the loader.
\<close>

theorem C10_counterexample:
  "strip ''=v'' \<noteq> []
   \<and> \<not> startswith (strip ''=v'') ''#''
   \<and> str_contains (strip ''=v'') ''=''
   \<and> split_eq1 (strip ''=v'') = [[], ''v'']
   \<and> load_env_file (Some [''=v'', ''A=b'']) [''HOME'' \<mapsto> ''/root'']
       = Inl (OSError ''[Errno 22] Invalid argument'')"
  by (simp add: strip_def isspace_def split_eq1_def load_env_file_def load_line_def
      environ_setitem_def Let_def)

text \<open>
  C10, amended. For every line of the file, with \<open>s\<close> the line stripped of surrounding
  whitespace: if \<open>s\<close> is empty, or starts with \<open>#\<close>, or has no \<open>=\<close>, the line changes
  nothing and the loop goes on with the rest. Every other line is \<open>key = value\<close> split
  at its first \<open>=\<close> (so \<open>value\<close> may hold further \<open>=\<close>). If \<open>key\<close> is not empty and neither
  \<open>key\<close> nor \<open>value\<close> holds a NUL character, the loop goes on with the environment in
  which \<open>key\<close> is bound to \<open>value\<close>, whatever it was bound to before. If \<open>key\<close> or \<open>value\<close>
  holds a NUL character the assignment raises \<^verbatim>\<open>ValueError\<close>, and if \<open>key\<close> is empty it
  raises \<^verbatim>\<open>OSError\<close>; the loader stops there. An absent or empty file changes nothing.
\<close>

theorem C10_env_loader:
  "(strip raw = [] \<or> startswith (strip raw) ''#'' \<or> CHR ''='' \<notin> set (strip raw) \<longrightarrow>
      load_env_file (Some (raw # rest)) env = load_env_file (Some rest) env)
   \<and> (\<not> (strip raw = [] \<or> startswith (strip raw) ''#'' \<or> CHR ''='' \<notin> set (strip raw)) \<longrightarrow>
      (\<exists>k v. strip raw = k @ ''='' @ v \<and> CHR ''='' \<notin> set k))
   \<and> (strip raw = key @ ''='' @ val \<and> CHR ''='' \<notin> set key \<and> \<not> startswith (strip raw) ''#'' \<longrightarrow>
      load_env_file (Some (raw # rest)) env =
        (if CHR 0x00 \<in> set key \<or> CHR 0x00 \<in> set val then
           Inl (ValueError ''embedded null byte'')
         else if key = [] then Inl (OSError ''[Errno 22] Invalid argument'')
         else load_env_file (Some rest) (env(key \<mapsto> val))))
   \<and> load_env_file (Some []) env = Inr env
   \<and> load_env_file None env = Inr env"
proof (intro conjI impI)
  assume "strip raw = [] \<or> startswith (strip raw) ''#'' \<or> CHR ''='' \<notin> set (strip raw)"
  then show "load_env_file (Some (raw # rest)) env = load_env_file (Some rest) env"
    by (simp add: load_env_file_def load_line_skip)
next
  assume "\<not> (strip raw = [] \<or> startswith (strip raw) ''#'' \<or> CHR ''='' \<notin> set (strip raw))"
  then show "\<exists>k v. strip raw = k @ ''='' @ v \<and> CHR ''='' \<notin> set k"
    using first_eq_sign by blast
next
  assume a: "strip raw = key @ ''='' @ val \<and> CHR ''='' \<notin> set key
    \<and> \<not> startswith (strip raw) ''#''"
  then have "load_line env raw = environ_setitem env key val"
    using load_line_split [of raw key val env] by blast
  with a show "load_env_file (Some (raw # rest)) env =
      (if CHR 0x00 \<in> set key \<or> CHR 0x00 \<in> set val then
         Inl (ValueError ''embedded null byte'')
       else if key = [] then Inl (OSError ''[Errno 22] Invalid argument'')
       else load_env_file (Some rest) (env(key \<mapsto> val)))"
    by (simp add: load_env_file_def environ_setitem_def)
next
  show "load_env_file (Some []) env = Inr env"
    by (simp add: load_env_file_def)
next
  show "load_env_file None env = Inr env"
    by (simp add: load_env_file_def)
qed

theorem C10_env_loader_witness:
  "load_env_file (Some [''   '', ''A=b'']) [''A'' \<mapsto> ''old'']
     = load_env_file (Some [''A=b'']) [''A'' \<mapsto> ''old'']
   \<and> load_env_file (Some [''# A=no'', ''A=b'']) [''A'' \<mapsto> ''old'']
     = load_env_file (Some [''A=b'']) [''A'' \<mapsto> ''old'']
   \<and> load_env_file (Some [''A'', ''A=b'']) [''A'' \<mapsto> ''old'']
     = load_env_file (Some [''A=b'']) [''A'' \<mapsto> ''old'']
   \<and> (\<exists>k v. strip ''A=b'' = k @ ''='' @ v \<and> CHR ''='' \<notin> set k)
   \<and> load_env_file (Some [''  API_KEY=a=b '' @ [CHR 0x0A]]) [''API_KEY'' \<mapsto> ''old'']
     = Inr [''API_KEY'' \<mapsto> ''a=b'']
   \<and> load_env_file (Some [''=v'', ''A=b'']) [''A'' \<mapsto> ''old'']
     = Inl (OSError ''[Errno 22] Invalid argument'')
   \<and> load_env_file (Some [''A=b'' @ [CHR 0x00] @ ''c'', ''A=b'']) [''A'' \<mapsto> ''old'']
     = Inl (ValueError ''embedded null byte'')"
proof (intro conjI)
  let ?E = "[''A'' \<mapsto> ''old'']"
  have s0: "strip ''   '' = []"
    by (simp add: strip_def isspace_def)
  have s1: "strip ''# A=no'' = ''# A=no''"
    by (simp add: strip_def isspace_def)
  have s2: "strip ''A'' = ''A''"
    by (simp add: strip_def isspace_def)
  have s3: "strip (''  API_KEY=a=b '' @ [CHR 0x0A]) = ''API_KEY'' @ ''='' @ ''a=b''"
    by (simp add: strip_def isspace_def)
  have s4: "strip ''=v'' = [] @ ''='' @ ''v''"
    by (simp add: strip_def isspace_def)
  have s5: "strip (''A=b'' @ [CHR 0x00] @ ''c'') = ''A'' @ ''='' @ (''b'' @ [CHR 0x00] @ ''c'')"
    by (simp add: strip_def isspace_def)
  have s6: "strip ''A=b'' = ''A=b''"
    by (simp add: strip_def isspace_def)
  show "load_env_file (Some [''   '', ''A=b'']) ?E = load_env_file (Some [''A=b'']) ?E"
    using C10_env_loader [where raw = "''   ''" and env = ?E and rest = "[''A=b'']"]
    by (simp add: s0)
  show "load_env_file (Some [''# A=no'', ''A=b'']) ?E = load_env_file (Some [''A=b'']) ?E"
    using C10_env_loader [where raw = "''# A=no''" and env = ?E and rest = "[''A=b'']"]
    by (simp add: s1)
  show "load_env_file (Some [''A'', ''A=b'']) ?E = load_env_file (Some [''A=b'']) ?E"
    using C10_env_loader [where raw = "''A''" and env = ?E and rest = "[''A=b'']"]
    by (simp add: s2)
  show "\<exists>k v. strip ''A=b'' = k @ ''='' @ v \<and> CHR ''='' \<notin> set k"
    using C10_env_loader [where raw = "''A=b''"]
    by (simp add: s6)
  have "CHR ''='' \<notin> set ''API_KEY''" and "\<not> startswith (''API_KEY'' @ ''='' @ ''a=b'') ''#''"
    by simp_all
  then show "load_env_file (Some [''  API_KEY=a=b '' @ [CHR 0x0A]]) [''API_KEY'' \<mapsto> ''old'']
     = Inr [''API_KEY'' \<mapsto> ''a=b'']"
    using s3 C10_env_loader [where raw = "''  API_KEY=a=b '' @ [CHR 0x0A]"
        and env = "[''API_KEY'' \<mapsto> ''old'']" and rest = "[]" and key = "''API_KEY''"
        and val = "''a=b''"]
      C10_env_loader [where env = "[''API_KEY'' \<mapsto> ''a=b'']"]
    by simp
  show "load_env_file (Some [''=v'', ''A=b'']) ?E = Inl (OSError ''[Errno 22] Invalid argument'')"
    using s4 C10_env_loader [where raw = "''=v''" and env = ?E and rest = "[''A=b'']"
        and key = "[]" and val = "''v''"]
    by simp
  show "load_env_file (Some [''A=b'' @ [CHR 0x00] @ ''c'', ''A=b'']) ?E
     = Inl (ValueError ''embedded null byte'')"
    using s5 C10_env_loader [where raw = "''A=b'' @ [CHR 0x00] @ ''c''" and env = ?E
        and rest = "[''A=b'']" and key = "''A''" and val = "''b'' @ [CHR 0x00] @ ''c''"]
    by simp
qed

end
